theory Spec2Isabelle
  imports Complex_Main
begin

section \<open>The distillation tray of idaes/unit_models/distillation/tray.py\<close>

text \<open>
  The theory embeds \<^verbatim>\<open>TrayData\<close>: \<^verbatim>\<open>build\<close> with the three balance builders,
  \<^verbatim>\<open>_add_ports\<close>, the port resolver \<^verbatim>\<open>_make_phase_split\<close>, and \<^verbatim>\<open>initialize\<close>.
  The tray object \<^verbatim>\<open>self\<close> is a record that every method takes and returns; an
  exception is a value that carries the tray as it was when the exception left the method.
  Pyomo expressions are kept symbolic and given a value by \<open>eval\<close>; the property package
  and the solver are collaborators outside tray.py and enter as data and as oracles.
\<close>

subsection \<open>Python strings and lists\<close>

text \<open>\<^verbatim>\<open>s.startswith(p)\<close>, and the substring test \<^verbatim>\<open>sub in s\<close> built from it.\<close>

fun startswith :: "string \<Rightarrow> string \<Rightarrow> bool" where
  "startswith s [] = True"
| "startswith [] (p # ps) = False"
| "startswith (c # cs) (p # ps) = (c = p \<and> startswith cs ps)"

fun py_in :: "string \<Rightarrow> string \<Rightarrow> bool" where
  "py_in sub [] = (sub = [])"
| "py_in sub (c # cs) = (startswith (c # cs) sub \<or> py_in sub cs)"

text \<open>\<^verbatim>\<open>s.split(sep)\<close> for a one-character separator: empty pieces are kept, and the
  empty string splits into one empty piece.\<close>

fun py_split :: "char \<Rightarrow> string \<Rightarrow> string list" where
  "py_split sep [] = [[]]"
| "py_split sep (c # cs) =
     (if c = sep then [] # py_split sep cs
      else (case py_split sep cs of
              w # ws \<Rightarrow> (c # w) # ws
            | [] \<Rightarrow> [[c]]))"

text \<open>\<^verbatim>\<open>sep.join(ws)\<close>.\<close>

fun py_join :: "string \<Rightarrow> string list \<Rightarrow> string" where
  "py_join sep [] = []"
| "py_join sep [w] = w"
| "py_join sep (w # v # ws) = w @ sep @ py_join sep (v # ws)"

datatype error =
    TypeError
  | IndexError
  | NameError
  | KeyError
  | AttributeError
  | RuntimeError
  | ValueError
  | PropertyPackageError string
  | Exception string

text \<open>A Python value used as a subscript: an integer or a string.\<close>

datatype pyval = PyInt int | PyStr string

text \<open>The subscript \<^verbatim>\<open>xs[i]\<close> of a list. A string is no list index: TypeError. An
  integer from \<open>-len\<close> up to \<open>len - 1\<close> selects an element, the negative ones from the
  back; any other integer is an IndexError.\<close>

fun list_getitem :: "'a list \<Rightarrow> pyval \<Rightarrow> error + 'a" where
  "list_getitem xs (PyStr s) = Inl TypeError"
| "list_getitem xs (PyInt i) =
     (if 0 \<le> i \<and> i < int (length xs) then Inr (xs ! nat i)
      else if i < 0 \<and> - int (length xs) \<le> i then Inr (xs ! nat (int (length xs) + i))
      else Inl IndexError)"

text \<open>The outcome of a method that mutates its object: the object after a normal return,
  or the exception together with the object as the exception found it.\<close>

datatype 's result = Ok 's | Raise error 's

subsection \<open>Pyomo expressions\<close>

type_synonym time = real

text \<open>
  \<open>Component b t n ix\<close> is \<^verbatim>\<open>self.<b>[t].component(n)[ix]\<close> (an attribute such as
  \<^verbatim>\<open>.pressure\<close> has \<open>ix = []\<close>); \<open>MaterialFlowTerms b t p j\<close> and \<open>EnthalpyFlowTerms b t p\<close>
  are the calls \<^verbatim>\<open>self.<b>[t].get_material_flow_terms(p, j)\<close> and
  \<^verbatim>\<open>self.<b>[t].get_enthalpy_flow_terms(p)\<close>; \<open>VarRef n\<close> is the tray's own variable
  \<^verbatim>\<open>self.<n>\<close>. What the state blocks answer belongs to the property package: the
  lookups stay symbolic.
\<close>

datatype expr =
    Lit real
  | VarRef string
  | Component string time string "string list"
  | MaterialFlowTerms string time string string
  | EnthalpyFlowTerms string time string
  | Add expr expr
  | Sub expr expr
  | Mul expr expr

datatype constraint = Equality expr expr

record valuation =
  var_value :: "string \<Rightarrow> real"
  component_value :: "string \<Rightarrow> time \<Rightarrow> string \<Rightarrow> string list \<Rightarrow> real"
  material_flow_value :: "string \<Rightarrow> time \<Rightarrow> string \<Rightarrow> string \<Rightarrow> real"
  enthalpy_flow_value :: "string \<Rightarrow> time \<Rightarrow> string \<Rightarrow> real"

fun eval :: "valuation \<Rightarrow> expr \<Rightarrow> real" where
  "eval v (Lit r) = r"
| "eval v (VarRef n) = var_value v n"
| "eval v (Component b t n ix) = component_value v b t n ix"
| "eval v (MaterialFlowTerms b t p j) = material_flow_value v b t p j"
| "eval v (EnthalpyFlowTerms b t p) = enthalpy_flow_value v b t p"
| "eval v (Add a b) = eval v a + eval v b"
| "eval v (Sub a b) = eval v a - eval v b"
| "eval v (Mul a b) = eval v a * eval v b"

text \<open>Python's \<^verbatim>\<open>sum\<close>: a left fold of \<open>+\<close> from \<open>0\<close>.\<close>

definition py_sum :: "expr list \<Rightarrow> expr" where
  "py_sum es = foldl Add (Lit 0) es"

subsection \<open>The tray\<close>

text \<open>One entry of \<^verbatim>\<open>define_port_members()\<close>: the variable's \<^verbatim>\<open>local_name\<close>,
  \<^verbatim>\<open>is_indexed()\<close> and \<^verbatim>\<open>index_set()\<close>.\<close>

record member =
  local_name :: string
  is_indexed :: bool
  index_set :: "string list"

datatype argval = ArgBool bool | ArgPackage | ArgOther string

text \<open>The property package as tray.py reads it: \<^verbatim>\<open>component_list\<close>, \<^verbatim>\<open>phase_list\<close>, and
  the dict \<^verbatim>\<open>define_port_members()\<close> of its state blocks, in iteration order.\<close>

record property_package =
  component_list :: "string list"
  phase_list :: "string list"
  define_port_members :: "(string \<times> member) list"

record config =
  is_feed_tray :: bool
  has_liquid_side_draw :: bool
  has_vapor_side_draw :: bool
  has_heat_transfer :: bool
  has_pressure_change :: bool
  property_package :: property_package
  property_package_args :: "(string \<times> argval) list"

datatype index = Idx1 time | Idx2 time string

text \<open>What a Port holds under a member name: \<open>Reference n sliced\<close> is
  \<^verbatim>\<open>Reference(self.properties_out[:].component(n))\<close>, with the trailing \<^verbatim>\<open>[...]\<close> when
  \<open>sliced\<close>; \<open>PortExpression d\<close> is an Expression with the data \<open>d\<close>.\<close>

datatype port_var =
    Reference string bool
  | PortExpression "(index \<times> expr) list"

datatype component =
    StateBlock string "string \<rightharpoonup> argval"
  | VarComponent real
  | ConstraintComponent "(index \<times> constraint) list"
  | InletPort string
  | PortComponent
  | ExpressionComponent "(index \<times> expr) list"

datatype termination_condition =
    optimal | infeasible | maxIterations | unbounded_problem | solver_error

datatype event =
    InitializeBlock string int
  | Solve bool
  | LogInfo string

text \<open>
  \<open>comps\<close> is the namespace of the block (\<^verbatim>\<open>self.<name>\<close>), \<open>port_vars p\<close> the
  \<^verbatim>\<open>vars\<close> dict of the Port named \<open>p\<close>. \<open>var_fixed\<close>, \<open>var_value_of\<close> and
  \<open>constraint_active\<close> are the flags and values \<^verbatim>\<open>initialize\<close> reads and sets;
  \<open>trace\<close> lists its calls to collaborators (state-block initialisation, solver, logger)
  in order.
\<close>

record tray =
  tray_name :: string
  config :: config
  flowsheet_time :: "time list"
  comps :: "string \<rightharpoonup> component"
  port_vars :: "string \<Rightarrow> string \<rightharpoonup> port_var"
  var_fixed :: "string \<Rightarrow> bool"
  var_value_of :: "string \<Rightarrow> real option"
  constraint_active :: "string \<Rightarrow> bool"
  trace :: "event list"

text \<open>\<^verbatim>\<open>self.<n> = c\<close> (also what the \<^verbatim>\<open>@self.Constraint\<close> decorator does).\<close>

definition set_attr :: "string \<Rightarrow> component \<Rightarrow> tray \<Rightarrow> tray" where
  "set_attr n c t = t\<lparr>comps := (comps t)(n \<mapsto> c)\<rparr>"

text \<open>\<^verbatim>\<open>port.add(v, k)\<close> on the Port named \<open>p\<close>: a dict assignment.\<close>

definition port_add :: "string \<Rightarrow> port_var \<Rightarrow> string \<Rightarrow> tray \<Rightarrow> tray" where
  "port_add p v k t = t\<lparr>port_vars := (port_vars t)(p := (port_vars t p)(k \<mapsto> v))\<rparr>"

text \<open>\<^verbatim>\<open>self.<p> = Port(noruleinit=True)\<close>: a new Port with no members.\<close>

definition new_port :: "string \<Rightarrow> tray \<Rightarrow> tray" where
  "new_port p t = (set_attr p PortComponent t)\<lparr>port_vars := (port_vars t)(p := Map.empty)\<rparr>"

text \<open>Constructing an indexed Expression calls the rule at every index, in order; the
  first exception of the rule ends it.\<close>

fun construct :: "index list \<Rightarrow> (index \<Rightarrow> error + expr) \<Rightarrow> error + (index \<times> expr) list" where
  "construct [] rule = Inr []"
| "construct (i # ixs) rule =
     (case rule i of
        Inl e \<Rightarrow> Inl e
      | Inr x \<Rightarrow> (case construct ixs rule of
                    Inl e \<Rightarrow> Inl e
                  | Inr d \<Rightarrow> Inr ((i, x) # d)))"

text \<open>
  \<^verbatim>\<open>expr = Expression(ixs, rule=rule); self.add_component(n, expr)\<close>. Pyomo's
  \<^verbatim>\<open>add_component\<close> refuses a name the block already has with a RuntimeError; otherwise
  it registers the component and constructs it, so an exception of the rule leaves the
  name registered with no data. The result is the outcome of the rule and the tray.
\<close>

definition add_component ::
  "string \<Rightarrow> index list \<Rightarrow> (index \<Rightarrow> error + expr) \<Rightarrow> tray
     \<Rightarrow> (error + (index \<times> expr) list) \<times> tray" where
  "add_component n ixs rule t =
     (if comps t n \<noteq> None then (Inl RuntimeError, t)
      else (case construct ixs rule of
              Inl e \<Rightarrow> (Inl e, set_attr n (ExpressionComponent []) t)
            | Inr d \<Rightarrow> (Inr d, set_attr n (ExpressionComponent d) t)))"

subsection \<open>The balance equations\<close>

text \<open>
  A constraint rule returns what Python's \<^verbatim>\<open>==\<close> gives it. Between two plain numbers
  that is a bool; as soon as one side holds a Pyomo object it is a relational expression.
  \<open>number_value e\<close> is the number \<open>e\<close> stands for when no Pyomo object occurs in it:
  \<^verbatim>\<open>sum\<close> over no phase at all is the integer \<open>0\<close>.
\<close>

datatype rule_value = Relation constraint | PyBool bool

fun number_value :: "expr \<Rightarrow> real option" where
  "number_value (Lit r) = Some r"
| "number_value (Add a b) =
     (case number_value a of
        None \<Rightarrow> None
      | Some x \<Rightarrow> (case number_value b of None \<Rightarrow> None | Some y \<Rightarrow> Some (x + y)))"
| "number_value (Sub a b) =
     (case number_value a of
        None \<Rightarrow> None
      | Some x \<Rightarrow> (case number_value b of None \<Rightarrow> None | Some y \<Rightarrow> Some (x - y)))"
| "number_value (Mul a b) =
     (case number_value a of
        None \<Rightarrow> None
      | Some x \<Rightarrow> (case number_value b of None \<Rightarrow> None | Some y \<Rightarrow> Some (x * y)))"
| "number_value (VarRef n) = None"
| "number_value (Component b t n ix) = None"
| "number_value (MaterialFlowTerms b t p j) = None"
| "number_value (EnthalpyFlowTerms b t p) = None"

definition py_eq :: "expr \<Rightarrow> expr \<Rightarrow> rule_value" where
  "py_eq l r =
     (case number_value l of
        None \<Rightarrow> Relation (Equality l r)
      | Some x \<Rightarrow> (case number_value r of
                    None \<Rightarrow> Relation (Equality l r)
                  | Some y \<Rightarrow> PyBool (x = y)))"

text \<open>Constructing a Constraint takes the rule's value at every index, in order; Pyomo
  refuses a bool with a ValueError.\<close>

fun construct_constraint ::
  "(index \<times> rule_value) list \<Rightarrow> error + (index \<times> constraint) list" where
  "construct_constraint [] = Inr []"
| "construct_constraint ((i, Relation c) # rest) =
     (case construct_constraint rest of
        Inl e \<Rightarrow> Inl e
      | Inr d \<Rightarrow> Inr ((i, c) # d))"
| "construct_constraint ((i, PyBool v) # rest) = Inl ValueError"

text \<open>A new Constraint is active; a new Var is not fixed and holds its initial value.\<close>

definition new_constraint :: "string \<Rightarrow> (index \<times> constraint) list \<Rightarrow> tray \<Rightarrow> tray" where
  "new_constraint n d b =
     (set_attr n (ConstraintComponent d) b)
       \<lparr>constraint_active := (constraint_active b)(n := True)\<rparr>"

definition new_var :: "string \<Rightarrow> real \<Rightarrow> tray \<Rightarrow> tray" where
  "new_var n r b =
     (set_attr n (VarComponent r) b)
       \<lparr>var_fixed := (var_fixed b)(n := False),
        var_value_of := (var_value_of b)(n := Some r)\<rparr>"

text \<open>
  The decorator \<^verbatim>\<open>@self.Constraint(..., doc=...)\<close> on a rule: the Constraint is attached
  under the rule's name and constructed; an exception from the construction leaves the
  name attached with no data.
\<close>

definition add_constraint :: "string \<Rightarrow> (index \<times> rule_value) list \<Rightarrow> tray \<Rightarrow> tray result" where
  "add_constraint n rules b =
     (case construct_constraint rules of
        Inl e \<Rightarrow> Raise e (new_constraint n [] b)
      | Inr d \<Rightarrow> Ok (new_constraint n d b))"

text \<open>\<^verbatim>\<open>_add_material_balance\<close>: the rule of \<^verbatim>\<open>material_mixing_equations\<close>, and the
  Constraint indexed by time and component list.\<close>

definition material_mixing_equations :: "tray \<Rightarrow> time \<Rightarrow> string \<Rightarrow> rule_value" where
  "material_mixing_equations b t j =
     (if is_feed_tray (config b) then
        py_eq (Lit 0) (py_sum (map (\<lambda>p.
          Sub (Add (Add (MaterialFlowTerms ''properties_in_feed'' t p j)
                        (MaterialFlowTerms ''properties_in_liq'' t p j))
                   (MaterialFlowTerms ''properties_in_vap'' t p j))
              (MaterialFlowTerms ''properties_out'' t p j))
          (phase_list (property_package (config b)))))
      else
        py_eq (Lit 0) (py_sum (map (\<lambda>p.
          Sub (Add (MaterialFlowTerms ''properties_in_liq'' t p j)
                   (MaterialFlowTerms ''properties_in_vap'' t p j))
              (MaterialFlowTerms ''properties_out'' t p j))
          (phase_list (property_package (config b))))))"

definition add_material_balance :: "tray \<Rightarrow> tray result" where
  "add_material_balance b =
     add_constraint ''material_mixing_equations''
       (map (\<lambda>(t, j). (Idx2 t j, material_mixing_equations b t j))
          (List.product (flowsheet_time b) (component_list (property_package (config b)))))
       b"

text \<open>\<^verbatim>\<open>_add_energy_balance\<close>.\<close>

definition enthalpy_sum :: "tray \<Rightarrow> string \<Rightarrow> time \<Rightarrow> expr" where
  "enthalpy_sum b blk t =
     py_sum (map (\<lambda>p. EnthalpyFlowTerms blk t p) (phase_list (property_package (config b))))"

definition enthalpy_mixing_equations :: "tray \<Rightarrow> time \<Rightarrow> rule_value" where
  "enthalpy_mixing_equations b t =
     (if is_feed_tray (config b) then
        (if has_heat_transfer (config b) then
           py_eq (Lit 0)
             (Add (Sub (Add (Add (enthalpy_sum b ''properties_in_feed'' t)
                                 (enthalpy_sum b ''properties_in_liq'' t))
                            (enthalpy_sum b ''properties_in_vap'' t))
                       (enthalpy_sum b ''properties_out'' t))
                  (VarRef ''heat_duty''))
         else
           py_eq (Lit 0)
             (Sub (Add (Add (enthalpy_sum b ''properties_in_feed'' t)
                            (enthalpy_sum b ''properties_in_liq'' t))
                       (enthalpy_sum b ''properties_in_vap'' t))
                  (enthalpy_sum b ''properties_out'' t)))
      else
        (if has_heat_transfer (config b) then
           py_eq (Lit 0)
             (Add (Sub (Add (enthalpy_sum b ''properties_in_liq'' t)
                            (enthalpy_sum b ''properties_in_vap'' t))
                       (enthalpy_sum b ''properties_out'' t))
                  (VarRef ''heat_duty''))
         else
           py_eq (Lit 0)
             (Sub (Add (enthalpy_sum b ''properties_in_liq'' t)
                       (enthalpy_sum b ''properties_in_vap'' t))
                  (enthalpy_sum b ''properties_out'' t))))"

definition add_energy_balance :: "tray \<Rightarrow> tray result" where
  "add_energy_balance b =
     (let b1 = (if has_heat_transfer (config b) then new_var ''heat_duty'' 0 b else b)
      in add_constraint ''enthalpy_mixing_equations''
           (map (\<lambda>t. (Idx1 t, enthalpy_mixing_equations b1 t)) (flowsheet_time b1)) b1)"

text \<open>\<^verbatim>\<open>_add_pressure_balance\<close>.\<close>

definition pressure_drop_equation :: "tray \<Rightarrow> time \<Rightarrow> rule_value" where
  "pressure_drop_equation b t =
     (if has_pressure_change (config b) then
        py_eq (Component ''properties_out'' t ''pressure'' [])
              (Sub (Component ''properties_in_vap'' t ''pressure'' []) (VarRef ''deltaP''))
      else
        py_eq (Component ''properties_out'' t ''pressure'' [])
              (Component ''properties_in_vap'' t ''pressure'' []))"

definition add_pressure_balance :: "tray \<Rightarrow> tray result" where
  "add_pressure_balance b =
     (let b1 = (if has_pressure_change (config b) then new_var ''deltaP'' 0 b else b)
      in add_constraint ''pressure_drop_equation''
           (map (\<lambda>t. (Idx1 t, pressure_drop_equation b1 t)) (flowsheet_time b1)) b1)"

subsection \<open>The port resolver\<close>

text \<open>The index lists of \<^verbatim>\<open>Expression(time, rule=...)\<close> and of
  \<^verbatim>\<open>Expression(time, index_set, rule=...)\<close>.\<close>

definition indices1 :: "time list \<Rightarrow> index list" where
  "indices1 ts = map Idx1 ts"

definition indices2 :: "time list \<Rightarrow> string list \<Rightarrow> index list" where
  "indices2 ts js = map (\<lambda>(t, j). Idx2 t j) (List.product ts js)"

text \<open>
  The rules of the synthesized expressions. Each closes over the local variable
  \<^verbatim>\<open>local_name\<close> of \<^verbatim>\<open>_make_phase_split\<close>, read when the rule runs: \<open>None\<close> is the
  variable not yet assigned, and reading it raises NameError. A rule called with the
  wrong number of indices raises TypeError.
\<close>

definition rule_mole_frac :: "string option \<Rightarrow> string \<Rightarrow> index \<Rightarrow> error + expr" where
  "rule_mole_frac cur phase ix =
     (case ix of
        Idx2 t i \<Rightarrow> (case cur of
                      None \<Rightarrow> Inl NameError
                    | Some n \<Rightarrow> Inr (Component ''properties_out'' t n [phase, i]))
      | Idx1 t \<Rightarrow> Inl TypeError)"

definition rule_flow :: "string option \<Rightarrow> string \<Rightarrow> expr \<Rightarrow> index \<Rightarrow> error + expr" where
  "rule_flow cur phase side_sf ix =
     (case ix of
        Idx1 t \<Rightarrow> (case cur of
                    None \<Rightarrow> Inl NameError
                  | Some n \<Rightarrow> Inr (Mul (Component ''properties_out'' t n [phase]) side_sf))
      | Idx2 t i \<Rightarrow> Inl TypeError)"

definition rule_flow_comp :: "string option \<Rightarrow> string \<Rightarrow> expr \<Rightarrow> index \<Rightarrow> error + expr" where
  "rule_flow_comp cur phase side_sf ix =
     (case ix of
        Idx2 t i \<Rightarrow> (case cur of
                      None \<Rightarrow> Inl NameError
                    | Some n \<Rightarrow> Inr (Mul (Component ''properties_out'' t n [phase, i]) side_sf))
      | Idx1 t \<Rightarrow> Inl TypeError)"

definition rule_enth :: "string option \<Rightarrow> string \<Rightarrow> index \<Rightarrow> error + expr" where
  "rule_enth cur phase ix =
     (case ix of
        Idx1 t \<Rightarrow> (case cur of
                    None \<Rightarrow> Inl NameError
                  | Some n \<Rightarrow> Inr (Component ''properties_out'' t n [phase]))
      | Idx2 t i \<Rightarrow> Inl TypeError)"

text \<open>\<^verbatim>\<open>self.add_component(n, expr); port.add(expr, k)\<close>, with the value \<open>cur\<close> of
  \<^verbatim>\<open>local_name\<close> at that point of the loop body.\<close>

definition add_and_export ::
  "string \<Rightarrow> index list \<Rightarrow> (index \<Rightarrow> error + expr) \<Rightarrow> string \<Rightarrow> string \<Rightarrow> string option
     \<Rightarrow> tray \<Rightarrow> (tray \<times> string option) result" where
  "add_and_export n ixs rule port k cur b =
     (case add_component n ixs rule b of
        (Inl e, b') \<Rightarrow> Raise e (b', cur)
      | (Inr d, b') \<Rightarrow> Ok (port_add port (PortExpression d) k b', cur))"

text \<open>
  The body of the loop \<^verbatim>\<open>for k in member_list\<close> of \<^verbatim>\<open>_make_phase_split\<close>, for the
  member \<open>m\<close> under the key \<open>k\<close>. The state is the tray and the local variable
  \<^verbatim>\<open>local_name\<close>, which lives across iterations.
\<close>

definition phase_split_member ::
  "string \<Rightarrow> string \<Rightarrow> expr \<Rightarrow> string \<times> member \<Rightarrow> tray \<times> string option
     \<Rightarrow> (tray \<times> string option) result" where
  "phase_split_member port phase side_sf km s =
     (let k = fst km; m = snd km; b = fst s; cur = snd s in
      if \<not> py_in ''flow'' k \<and> \<not> py_in ''frac'' k \<and> \<not> py_in ''enth'' k then
        (if \<not> is_indexed m
         then Ok (port_add port (Reference (local_name m) False) k b, cur)
         else Ok (port_add port (Reference (local_name m) True) k b, cur))
      else if py_in ''frac'' k \<and> (py_in ''mole'' k \<or> py_in ''mass'' k) then
        (if \<not> py_in ''phase'' k then
           (let str_split = py_split CHR ''_'' k in
            case list_getitem str_split (PyInt 2) of
              Inl e \<Rightarrow> Raise e (b, cur)
            | Inr s2 \<Rightarrow>
                (let n = py_join ''_'' (take 2 str_split) @ ''_phase'' @ ''_'' @ s2 in
                 add_and_export (''e_mole_frac_'' @ port)
                   (indices2 (flowsheet_time b) (index_set m))
                   (rule_mole_frac (Some n) phase) port k (Some n) b))
         else Ok (port_add port (Reference (local_name m) True) k b, cur))
      else if py_in ''flow'' k then
        (if \<not> py_in ''phase'' k then
           (if \<not> is_indexed m then
              (let n = local_name m @ ''_phase'' in
               add_and_export (''e_flow_'' @ port) (indices1 (flowsheet_time b))
                 (rule_flow (Some n) phase side_sf) port k (Some n) b)
            else
              (let str_split = py_split CHR ''_'' (local_name m);
                   cur' = (if length str_split = 3 \<and> last str_split = ''comp''
                          then Some (str_split ! 0 @ ''_'' @ str_split ! 1 @ ''_phase_'' @ ''comp'')
                          else cur) in
               add_and_export (''e_flow_'' @ port)
                 (indices2 (flowsheet_time b) (index_set m))
                 (rule_flow_comp cur' phase side_sf) port k cur' b))
         else Ok (b, cur))
      else if py_in ''enth'' k then
        (if \<not> py_in ''phase'' k then
           (if \<not> is_indexed m then
              (let n = local_name m @ ''_phase'' in
               add_and_export (''e_enth_'' @ port) (indices1 (flowsheet_time b))
                 (rule_enth (Some n) phase) port k (Some n) b)
            else Raise (PropertyPackageError ''Expected an unindexed variable.'') (b, cur))
         else if py_in ''phase'' k then
           (if \<not> is_indexed m
            then Ok (port_add port (Reference (local_name m) False) k b, cur)
            else Ok (port_add port (Reference (local_name m) True) k b, cur))
         else Raise (Exception (''Unrecognized enthalpy state variable. '' @
                       ''Only total mixture enthalpy or enthalpy by '' @
                       ''phase are supported.'')) (b, cur))
      else Ok (b, cur))"

text \<open>A \<^verbatim>\<open>for\<close> loop whose body may raise.\<close>

fun for_each :: "('a \<Rightarrow> 's \<Rightarrow> 's result) \<Rightarrow> 'a list \<Rightarrow> 's \<Rightarrow> 's result" where
  "for_each body [] s = Ok s"
| "for_each body (x # xs) s =
     (case body x s of
        Ok s' \<Rightarrow> for_each body xs s'
      | Raise e s' \<Rightarrow> Raise e s')"

text \<open>
  \<^verbatim>\<open>_make_phase_split(port, phase, side_sf)\<close>; the keyword arguments
  \<^verbatim>\<open>has_liquid_side_draw\<close> and \<^verbatim>\<open>has_vapor_side_draw\<close> are never read by the method.
  \<^verbatim>\<open>self.properties_out[0]\<close> raises KeyError when \<open>0\<close> is no time point.
\<close>

definition make_phase_split :: "string \<Rightarrow> string \<Rightarrow> expr \<Rightarrow> tray \<Rightarrow> tray result" where
  "make_phase_split port phase side_sf b =
     (if 0 \<notin> set (flowsheet_time b) then Raise KeyError b
      else (case for_each (phase_split_member port phase side_sf)
                   (define_port_members (property_package (config b))) (b, None) of
              Ok s \<Rightarrow> Ok (fst s)
            | Raise e s \<Rightarrow> Raise e (fst s)))"

subsection \<open>Ports\<close>

text \<open>\<^verbatim>\<open>self.add_inlet_port(name=n, block=blk)\<close> of the unit-model base class: a Port
  named \<open>n\<close> on the state block \<open>blk\<close>.\<close>

definition add_inlet_port :: "string \<Rightarrow> string \<Rightarrow> tray \<Rightarrow> tray" where
  "add_inlet_port n blk b = set_attr n (InletPort blk) b"

definition and_then :: "'s result \<Rightarrow> ('s \<Rightarrow> 's result) \<Rightarrow> 's result" where
  "and_then r f = (case r of Ok s \<Rightarrow> f s | Raise e s \<Rightarrow> Raise e s)"

text \<open>\<^verbatim>\<open>_add_ports\<close>, in its three parts: the inlet ports, the liquid outlet with its
  optional side draw, the vapor outlet with its optional side draw.\<close>

definition add_inlet_ports :: "tray \<Rightarrow> tray" where
  "add_inlet_ports b =
     (let b1 = (if is_feed_tray (config b)
                then add_inlet_port ''feed'' ''properties_in_feed'' b else b);
          b2 = add_inlet_port ''liq_in'' ''properties_in_liq'' b1
      in add_inlet_port ''vap_in'' ''properties_in_vap'' b2)"

definition add_liquid_ports :: "tray \<Rightarrow> tray result" where
  "add_liquid_ports b =
     (let b1 = new_port ''liq_out'' b in
      if has_liquid_side_draw (config b1) then
        (let b2 = new_var ''liq_side_sf'' 0.01 b1;
             b3 = new_port ''liq_side_draw'' b2
         in and_then (make_phase_split ''liq_side_draw'' ''Liq'' (VarRef ''liq_side_sf'') b3)
              (make_phase_split ''liq_out'' ''Liq'' (Sub (Lit 1) (VarRef ''liq_side_sf''))))
      else make_phase_split ''liq_out'' ''Liq'' (Lit 1) b1)"

definition add_vapor_ports :: "tray \<Rightarrow> tray result" where
  "add_vapor_ports b =
     (let b1 = new_port ''vap_out'' b in
      if has_vapor_side_draw (config b1) then
        (let b2 = new_var ''vap_side_sf'' 0.01 b1;
             b3 = new_port ''vap_side_draw'' b2
         in and_then (make_phase_split ''vap_side_draw'' ''Vap'' (VarRef ''vap_side_sf'') b3)
              (make_phase_split ''vap_out'' ''Vap'' (Sub (Lit 1) (VarRef ''vap_side_sf''))))
      else make_phase_split ''vap_out'' ''Vap'' (Lit 1) b1)"

definition add_ports :: "tray \<Rightarrow> tray result" where
  "add_ports b = and_then (add_liquid_ports (add_inlet_ports b)) add_vapor_ports"

subsection \<open>build\<close>

definition inlet_list :: "config \<Rightarrow> string list" where
  "inlet_list cfg =
     (if is_feed_tray cfg then [''feed'', ''liq'', ''vap''] else [''liq'', ''vap''])"

definition state_block_args :: "config \<Rightarrow> string \<rightharpoonup> argval" where
  "state_block_args cfg =
     (map_of (property_package_args cfg))
       (''has_phase_equilibrium'' \<mapsto> ArgBool False,
        ''parameters'' \<mapsto> ArgPackage,
        ''defined_state'' \<mapsto> ArgBool True)"

definition mixed_block_args :: "config \<Rightarrow> string \<rightharpoonup> argval" where
  "mixed_block_args cfg =
     (map_of (property_package_args cfg))
       (''has_phase_equilibrium'' \<mapsto> ArgBool True,
        ''parameters'' \<mapsto> ArgPackage,
        ''defined_state'' \<mapsto> ArgBool False)"

text \<open>
  The loop \<^verbatim>\<open>for i in inlet_list\<close>: \<open>i\<close> is an element of the list, a string, and the
  \<^verbatim>\<open>doc\<close> argument subscripts the list with it, \<^verbatim>\<open>inlet_list[i]\<close>, before the state
  block is created and attached by \<^verbatim>\<open>setattr\<close>.
\<close>

definition build_inlet_block :: "string list \<Rightarrow> string \<Rightarrow> tray \<Rightarrow> tray result" where
  "build_inlet_block inlets i b =
     (case list_getitem inlets (PyStr i) of
        Inl e \<Rightarrow> Raise e b
      | Inr role \<Rightarrow>
          Ok (set_attr (''properties_in_'' @ i)
                (StateBlock (''State block for '' @ role @ ''_inlet to tray'')
                   (state_block_args (config b))) b))"

text \<open>\<^verbatim>\<open>build\<close>; \<^verbatim>\<open>super().build()\<close> belongs to the base class and is taken to
  return.\<close>

definition build :: "tray \<Rightarrow> tray result" where
  "build b =
     and_then (for_each (build_inlet_block (inlet_list (config b))) (inlet_list (config b)) b)
       (\<lambda>b1.
          and_then
            (add_material_balance
               (set_attr ''properties_out''
                  (StateBlock ''State block for mixed outlet from tray''
                     (mixed_block_args (config b1))) b1))
            (\<lambda>b3. and_then (add_energy_balance b3)
               (\<lambda>b4. and_then (add_pressure_balance b4) add_ports)))"

subsection \<open>initialize\<close>

text \<open>
  The collaborators of \<^verbatim>\<open>initialize\<close>. A state block's own \<^verbatim>\<open>initialize(outlvl)\<close>
  may set any variable value; the solver reads the tray and the \<^verbatim>\<open>tee\<close> flag and
  answers with a termination condition and new variable values.
\<close>

type_synonym block_initializer =
  "string \<Rightarrow> int \<Rightarrow> (string \<Rightarrow> real option) \<Rightarrow> (string \<Rightarrow> real option)"

type_synonym solver =
  "tray \<Rightarrow> bool \<Rightarrow> termination_condition \<times> (string \<Rightarrow> real option)"

definition properties_initialize :: "block_initializer \<Rightarrow> string \<Rightarrow> int \<Rightarrow> tray \<Rightarrow> tray" where
  "properties_initialize init blk outlvl b =
     b\<lparr>var_value_of := init blk outlvl (var_value_of b),
       trace := trace b @ [InitializeBlock blk outlvl]\<rparr>"

definition deactivate :: "string \<Rightarrow> tray \<Rightarrow> tray" where
  "deactivate c b = b\<lparr>constraint_active := (constraint_active b)(c := False)\<rparr>"

definition activate :: "string \<Rightarrow> tray \<Rightarrow> tray" where
  "activate c b = b\<lparr>constraint_active := (constraint_active b)(c := True)\<rparr>"

text \<open>\<^verbatim>\<open>.fix(x)\<close> stores the value and sets the flag; \<^verbatim>\<open>.unfix()\<close> clears the flag.\<close>

definition fix_var :: "string \<Rightarrow> real option \<Rightarrow> tray \<Rightarrow> tray" where
  "fix_var x r b =
     b\<lparr>var_fixed := (var_fixed b)(x := True), var_value_of := (var_value_of b)(x := r)\<rparr>"

definition unfix_var :: "string \<Rightarrow> tray \<Rightarrow> tray" where
  "unfix_var x b = b\<lparr>var_fixed := (var_fixed b)(x := False)\<rparr>"

text \<open>\<^verbatim>\<open>solver.solve(self, tee=tee)\<close>, giving
  \<^verbatim>\<open>solver_output.solver.termination_condition\<close>.\<close>

definition solve :: "solver \<Rightarrow> bool \<Rightarrow> tray \<Rightarrow> termination_condition \<times> tray" where
  "solve s tee b =
     (fst (s b tee), b\<lparr>var_value_of := snd (s b tee), trace := trace b @ [Solve tee]\<rparr>)"

definition log_info :: "string \<Rightarrow> tray \<Rightarrow> tray" where
  "log_info msg b = b\<lparr>trace := trace b @ [LogInfo msg]\<rparr>"

text \<open>
  The temperature guess: \<^verbatim>\<open>[0]\<close> raises KeyError when \<open>0\<close> is no time point, and
  \<^verbatim>\<open>+\<close> raises TypeError on a value that is \<^verbatim>\<open>None\<close>.
\<close>

definition average_temperature :: "tray \<Rightarrow> error + real option" where
  "average_temperature b =
     (if 0 \<notin> set (flowsheet_time b) then Inl KeyError
      else if \<not> is_feed_tray (config b) then
        (case var_value_of b ''properties_in_liq[0].temperature'' of
           None \<Rightarrow> Inl TypeError
         | Some x \<Rightarrow>
             (case var_value_of b ''properties_in_vap[0].temperature'' of
                None \<Rightarrow> Inl TypeError
              | Some y \<Rightarrow> Inr (Some (0.5 * (x + y)))))
      else Inr (var_value_of b ''properties_in_feed[0].temperature''))"

text \<open>
  \<^verbatim>\<open>initialize(solver, outlvl)\<close> in three parts: the two checks of the split
  fractions; the initialisation of the state blocks with the mass-only set-up (energy and
  pressure balances deactivated, outlet temperature and pressure fixed); and the solves.
  The arguments \<^verbatim>\<open>state_args_feed\<close>, \<^verbatim>\<open>state_args_liq\<close> and \<^verbatim>\<open>state_args_vap\<close> are
  never read by the method.
\<close>

definition initialize_state_blocks :: "block_initializer \<Rightarrow> int \<Rightarrow> tray \<Rightarrow> tray result" where
  "initialize_state_blocks init outlvl b =
     (let b1 = (if is_feed_tray (config b)
                then properties_initialize init ''properties_in_feed'' outlvl b else b);
          b2 = properties_initialize init ''properties_in_liq'' outlvl b1;
          b3 = properties_initialize init ''properties_in_vap'' outlvl b2;
          b4 = properties_initialize init ''properties_out'' outlvl b3;
          b5 = deactivate ''enthalpy_mixing_equations'' b4
      in case average_temperature b5 of
           Inl e \<Rightarrow> Raise e b5
         | Inr avg \<Rightarrow>
             (let b6 = fix_var ''properties_out[:].temperature'' avg b5;
                  b7 = deactivate ''pressure_drop_equation'' b6
              in Ok (fix_var ''properties_out[:].pressure''
                       (var_value_of b7 ''properties_in_vap[0].pressure'') b7)))"

text \<open>\<^verbatim>\<open>solver_output = solver.solve(self, tee=tee)\<close> followed by the \<^verbatim>\<open>_log.info\<close>
  of its termination condition.\<close>

definition solve_and_log ::
  "solver \<Rightarrow> bool \<Rightarrow> string \<Rightarrow> string \<Rightarrow> tray \<Rightarrow> termination_condition \<times> tray" where
  "solve_and_log s tee succeeded failed b =
     (case solve s tee b of
        (tc, b') \<Rightarrow>
          (tc, log_info (tray_name b' @ (if tc = optimal then succeeded else failed)) b'))"

text \<open>Lines 532 to 572. With \<^verbatim>\<open>solver=None\<close> the attribute \<^verbatim>\<open>solver.solve\<close> raises
  AttributeError. The last \<^verbatim>\<open>if\<close> reads the \<^verbatim>\<open>solver_output\<close> of the second
  solve.\<close>

definition staged_solves :: "solver option \<Rightarrow> int \<Rightarrow> tray \<Rightarrow> tray result" where
  "staged_solves solver outlvl b =
     (case solver of
        None \<Rightarrow> Raise AttributeError b
      | Some s \<Rightarrow>
          (let tee = (outlvl > 2) in
           case solve_and_log s tee '' Mass balance solve successful.''
                  '' Mass balance solve failed.'' b of
             (tc1, b1) \<Rightarrow>
               (let b2 = activate ''enthalpy_mixing_equations'' b1;
                    b3 = unfix_var ''properties_out[:].temperature'' b2 in
                case solve_and_log s tee '' Mass/Energy balance solve successful.''
                       '' Mass/Energy balance solve failed.'' b3 of
                  (tc2, b4) \<Rightarrow>
                    (let b5 = activate ''pressure_drop_equation'' b4;
                         b6 = unfix_var ''properties_out[:].pressure'' b5
                     in Ok (log_info
                              (tray_name b6 @
                                 (if tc2 = optimal
                                  then '' Tray initialisation complete.''
                                  else '' Mass/Energy/Pressure balance solve failed.''))
                              b6)))))"

definition initialize ::
  "block_initializer \<Rightarrow> solver option \<Rightarrow> int \<Rightarrow> tray \<Rightarrow> tray result" where
  "initialize init solver outlvl b =
     (if has_liquid_side_draw (config b) \<and> \<not> var_fixed b ''liq_side_sf'' then
        Raise (Exception ''Liquid side draw split fraction not fixed.'') b
      else if has_vapor_side_draw (config b) \<and> \<not> var_fixed b ''vap_side_sf'' then
        Raise (Exception ''Vapor side draw split fraction not fixed.'') b
      else and_then (initialize_state_blocks init outlvl b) (staged_solves solver outlvl))"

text \<open>The solver calls recorded in a trace.\<close>

fun is_solve :: "event \<Rightarrow> bool" where
  "is_solve (Solve tee) = True"
| "is_solve e = False"

definition solver_calls :: "tray result \<Rightarrow> nat" where
  "solver_calls r = (case r of Ok b \<Rightarrow> length (filter is_solve (trace b))
                             | Raise e b \<Rightarrow> length (filter is_solve (trace b)))"

subsection \<open>Observations\<close>

fun is_ok :: "'s result \<Rightarrow> bool" where
  "is_ok (Ok s) = True"
| "is_ok (Raise e s) = False"

fun state_of :: "'s result \<Rightarrow> 's" where
  "state_of (Ok s) = s"
| "state_of (Raise e s) = s"

fun error_of :: "'s result \<Rightarrow> error option" where
  "error_of (Ok s) = None"
| "error_of (Raise e s) = Some e"

text \<open>The inlet ports a tray exposes.\<close>

definition inlet_ports :: "tray \<Rightarrow> string set" where
  "inlet_ports b = {n. \<exists>blk. comps b n = Some (InletPort blk)}"

text \<open>
  The kinds of port member, as the \<^verbatim>\<open>if\<close>/\<^verbatim>\<open>elif\<close> chain of \<^verbatim>\<open>_make_phase_split\<close>
  tells them apart, in its order: intensive, composition fraction, flow, enthalpy.
\<close>

definition intensive_member :: "string \<Rightarrow> bool" where
  "intensive_member k = (\<not> py_in ''flow'' k \<and> \<not> py_in ''frac'' k \<and> \<not> py_in ''enth'' k)"

definition fraction_member :: "string \<Rightarrow> bool" where
  "fraction_member k = (py_in ''frac'' k \<and> (py_in ''mole'' k \<or> py_in ''mass'' k))"

definition flow_member :: "string \<Rightarrow> bool" where
  "flow_member k = (py_in ''flow'' k \<and> \<not> fraction_member k)"

definition enthalpy_member :: "string \<Rightarrow> bool" where
  "enthalpy_member k = (py_in ''enth'' k \<and> \<not> py_in ''flow'' k \<and> \<not> fraction_member k)"

text \<open>The reference that the resolver exports for a member it does not split.\<close>

definition shared_reference :: "string \<Rightarrow> member \<Rightarrow> port_var" where
  "shared_reference k m = Reference (local_name m) (fraction_member k \<or> is_indexed m)"

text \<open>The phase-indexed sibling a flow member is read from, and whether the resolver
  finds its name: always for an unindexed member, and for an indexed one when its local
  name is \<^verbatim>\<open>X_Y_comp\<close>.\<close>

definition flow_sibling :: "member \<Rightarrow> string" where
  "flow_sibling m =
     (if \<not> is_indexed m then local_name m @ ''_phase''
      else py_split CHR ''_'' (local_name m) ! 0 @ ''_'' @
           py_split CHR ''_'' (local_name m) ! 1 @ ''_phase_comp'')"

definition flow_sibling_named :: "member \<Rightarrow> bool" where
  "flow_sibling_named m =
     (if is_indexed m
      then length (py_split CHR ''_'' (local_name m)) = 3 \<and>
           last (py_split CHR ''_'' (local_name m)) = ''comp''
      else True)"

text \<open>The time point of an index, and the subscript a rule puts after the phase.\<close>

fun index_time :: "index \<Rightarrow> time" where
  "index_time (Idx1 t) = t"
| "index_time (Idx2 t j) = t"

fun index_rest :: "index \<Rightarrow> string list" where
  "index_rest (Idx1 t) = []"
| "index_rest (Idx2 t j) = [j]"

definition member_indices :: "tray \<Rightarrow> member \<Rightarrow> index list" where
  "member_indices b m =
     (if is_indexed m then indices2 (flowsheet_time b) (index_set m)
      else indices1 (flowsheet_time b))"

text \<open>
  \<open>carries_flow b port k m phase v c\<close>: under the valuation \<open>v\<close>, the Port \<open>port\<close> of
  \<open>b\<close> holds for \<open>k\<close> an expression over every time point (and component) whose value is
  \<open>c\<close> times the flow sibling of \<open>m\<close> at \<open>phase\<close>.
\<close>

definition carries_flow ::
  "tray \<Rightarrow> string \<Rightarrow> string \<Rightarrow> member \<Rightarrow> string \<Rightarrow> valuation \<Rightarrow> real \<Rightarrow> bool" where
  "carries_flow b port k m phase v c =
     (case port_vars b port k of
        Some (PortExpression d) \<Rightarrow>
          map fst d = member_indices b m \<and>
          list_all (\<lambda>(ix, e). eval v e =
             component_value v ''properties_out'' (index_time ix) (flow_sibling m)
               (phase # index_rest ix) * c) d
      | _ \<Rightarrow> False)"

subsection \<open>The resolver seen from outside\<close>

text \<open>
  Notions used to state and prove what the ports hold; none of them is part of tray.py.
  \<open>exports port phase sf km b r\<close>: wherever the loop body meets the member \<open>km\<close> on a
  tray with the configuration and time set of \<open>b\<close> and returns normally, the Port holds
  \<open>r\<close> for it afterwards (\<open>None\<close>: what it held before).
\<close>

definition entry_after :: "port_var option \<Rightarrow> port_var option \<Rightarrow> port_var option" where
  "entry_after r old = (case r of Some v \<Rightarrow> Some v | None \<Rightarrow> old)"

definition exports ::
  "string \<Rightarrow> string \<Rightarrow> expr \<Rightarrow> string \<times> member \<Rightarrow> tray \<Rightarrow> port_var option \<Rightarrow> bool" where
  "exports port phase sf km b r =
     (\<forall>b1 cur b2 cur2.
        config b1 = config b \<longrightarrow> flowsheet_time b1 = flowsheet_time b \<longrightarrow>
        phase_split_member port phase sf km (b1, cur) = Ok (b2, cur2) \<longrightarrow>
        port_vars b2 port (fst km) = entry_after r (port_vars b1 port (fst km)))"

definition outlet_calls :: "config \<Rightarrow> (string \<times> string \<times> expr) list" where
  "outlet_calls c =
     (if has_liquid_side_draw c
      then [(''liq_side_draw'', ''Liq'', VarRef ''liq_side_sf''),
            (''liq_out'', ''Liq'', Sub (Lit 1) (VarRef ''liq_side_sf''))]
      else [(''liq_out'', ''Liq'', Lit 1)]) @
     (if has_vapor_side_draw c
      then [(''vap_side_draw'', ''Vap'', VarRef ''vap_side_sf''),
            (''vap_out'', ''Vap'', Sub (Lit 1) (VarRef ''vap_side_sf''))]
      else [(''vap_out'', ''Vap'', Lit 1)])"

definition outlet_pair ::
  "string \<Rightarrow> string \<Rightarrow> string \<Rightarrow> string \<Rightarrow> bool \<Rightarrow> tray \<Rightarrow> tray result" where
  "outlet_pair main side sfv phase has b =
     (if has then
        and_then (make_phase_split side phase (VarRef sfv)
                    (new_port side (new_var sfv 0.01 (new_port main b))))
          (make_phase_split main phase (Sub (Lit 1) (VarRef sfv)))
      else make_phase_split main phase (Lit 1) (new_port main b))"

definition pair_calls :: "string \<Rightarrow> string \<Rightarrow> string \<Rightarrow> bool \<Rightarrow> (string \<times> expr) list" where
  "pair_calls main side sfv has =
     (if has then [(side, VarRef sfv), (main, Sub (Lit 1) (VarRef sfv))] else [(main, Lit 1)])"

text \<open>What a step that returns normally did to the tray.\<close>

definition touched :: "string \<Rightarrow> string \<Rightarrow> tray \<Rightarrow> tray \<Rightarrow> bool" where
  "touched port k b b' =
     (b' = b \<or> (\<exists>v. b' = port_add port v k b) \<or>
      (\<exists>v n c. b' = port_add port v k (set_attr n c b)))"

text \<open>The sum that the material balance rule compares with \<open>0\<close>, and the constraints
  of the balance when every rule value is a relation.\<close>

definition material_mixing_sum :: "tray \<Rightarrow> time \<Rightarrow> string \<Rightarrow> expr" where
  "material_mixing_sum b t j =
     (if is_feed_tray (config b) then
        py_sum (map (\<lambda>p.
          Sub (Add (Add (MaterialFlowTerms ''properties_in_feed'' t p j)
                        (MaterialFlowTerms ''properties_in_liq'' t p j))
                   (MaterialFlowTerms ''properties_in_vap'' t p j))
              (MaterialFlowTerms ''properties_out'' t p j))
          (phase_list (property_package (config b))))
      else
        py_sum (map (\<lambda>p.
          Sub (Add (MaterialFlowTerms ''properties_in_liq'' t p j)
                   (MaterialFlowTerms ''properties_in_vap'' t p j))
              (MaterialFlowTerms ''properties_out'' t p j))
          (phase_list (property_package (config b)))))"

definition material_balance_data :: "tray \<Rightarrow> (index \<times> constraint) list" where
  "material_balance_data b =
     map (\<lambda>(t, j). (Idx2 t j, Equality (Lit 0) (material_mixing_sum b t j)))
       (List.product (flowsheet_time b) (component_list (property_package (config b))))"

text \<open>The data of the expression a flow member with a named sibling gets, and of the
  one a total enthalpy gets.\<close>

definition flow_data :: "time list \<Rightarrow> string \<Rightarrow> expr \<Rightarrow> member \<Rightarrow> (index \<times> expr) list" where
  "flow_data ts phase sf m =
     (if is_indexed m
      then map (\<lambda>ix. (ix, Mul (Component ''properties_out'' (index_time ix) (flow_sibling m)
                                  (phase # index_rest ix)) sf))
             (indices2 ts (index_set m))
      else map (\<lambda>ix. (ix, Mul (Component ''properties_out'' (index_time ix) (flow_sibling m)
                                  (phase # index_rest ix)) sf))
             (indices1 ts))"

definition enth_data :: "time list \<Rightarrow> string \<Rightarrow> member \<Rightarrow> (index \<times> expr) list" where
  "enth_data ts phase m =
     map (\<lambda>ix. (ix, Component ''properties_out'' (index_time ix) (local_name m @ ''_phase'')
                      [phase]))
       (indices1 ts)"

subsection \<open>Example trays\<close>

definition example_members :: "(string \<times> member) list" where
  "example_members =
     [(''flow_mol_comp'',
         \<lparr>local_name = ''flow_mol_comp'', is_indexed = True, index_set = [''benzene'', ''toluene'']\<rparr>),
      (''mole_frac_comp'',
         \<lparr>local_name = ''mole_frac_comp'', is_indexed = True, index_set = [''benzene'', ''toluene'']\<rparr>),
      (''enth_mol'',
         \<lparr>local_name = ''enth_mol'', is_indexed = False, index_set = []\<rparr>),
      (''enth_mol_phase'',
         \<lparr>local_name = ''enth_mol_phase'', is_indexed = True, index_set = [''Liq'', ''Vap'']\<rparr>),
      (''flow_mol_phase'',
         \<lparr>local_name = ''flow_mol_phase'', is_indexed = True, index_set = [''Liq'', ''Vap'']\<rparr>),
      (''pressure'',
         \<lparr>local_name = ''pressure'', is_indexed = False, index_set = []\<rparr>)]"

definition example_package :: "(string \<times> member) list \<Rightarrow> property_package" where
  "example_package ms =
     \<lparr>component_list = [''benzene'', ''toluene''], phase_list = [''Liq'', ''Vap''],
      define_port_members = ms\<rparr>"

definition example_config :: "bool \<Rightarrow> bool \<Rightarrow> bool \<Rightarrow> (string \<times> member) list \<Rightarrow> config" where
  "example_config feed liq_draw vap_draw ms =
     \<lparr>is_feed_tray = feed, has_liquid_side_draw = liq_draw, has_vapor_side_draw = vap_draw,
      has_heat_transfer = False, has_pressure_change = False,
      property_package = example_package ms, property_package_args = []\<rparr>"

text \<open>A tray before \<^verbatim>\<open>build\<close>: nothing attached, every variable free and valued
  \<open>300\<close>, every constraint active, one time point \<open>0\<close>.\<close>

definition example_tray :: "config \<Rightarrow> tray" where
  "example_tray c =
     \<lparr>tray_name = ''fs.tray'', config = c, flowsheet_time = [0], comps = Map.empty,
      port_vars = (\<lambda>p. Map.empty), var_fixed = (\<lambda>x. False),
      var_value_of = (\<lambda>x. Some 300), constraint_active = (\<lambda>c. True), trace = []\<rparr>"

text \<open>A state-block initialiser that leaves the values alone, and a solver that always
  reports \<open>optimal\<close>.\<close>

definition example_init :: block_initializer where
  "example_init blk outlvl vals = vals"

definition example_solver :: solver where
  "example_solver b tee = (optimal, var_value_of b)"

definition example_valuation :: valuation where
  "example_valuation =
     \<lparr>var_value = (\<lambda>n. 1 / 4), component_value = (\<lambda>b t n ix. 8),
      material_flow_value = (\<lambda>b t p j. 1), enthalpy_flow_value = (\<lambda>b t p. 1)\<rparr>"

text \<open>A tray whose property package declares no phase.\<close>

definition example_tray_without_phases :: tray where
  "example_tray_without_phases =
     example_tray
       \<lparr>is_feed_tray = False, has_liquid_side_draw = False, has_vapor_side_draw = False,
        has_heat_transfer = False, has_pressure_change = False,
        property_package =
          \<lparr>component_list = [''benzene'', ''toluene''], phase_list = [],
           define_port_members = []\<rparr>,
        property_package_args = []\<rparr>"

text \<open>A port member whose key is its variable's local name.\<close>

definition example_member :: "string \<Rightarrow> bool \<Rightarrow> string \<times> member" where
  "example_member n ix =
     (n, \<lparr>local_name = n, is_indexed = ix, index_set = [''benzene'', ''toluene'']\<rparr>)"

section \<open>Properties\<close>

lemmas example_defs =
  example_tray_def example_config_def example_package_def example_members_def
  example_init_def example_solver_def

subsection \<open>Strings\<close>

text \<open>\<open>py_in\<close> is the substring relation.\<close>

lemma startswith_iff: "startswith s p \<longleftrightarrow> (\<exists>r. s = p @ r)"
  by (induction s p rule: startswith.induct) auto

lemma py_in_iff: "py_in sub s \<longleftrightarrow> (\<exists>l r. s = l @ sub @ r)"
proof (induction s)
  case Nil
  then show ?case by auto
next
  case (Cons c cs)
  show ?case
  proof
    assume "py_in sub (c # cs)"
    then consider "startswith (c # cs) sub" | "py_in sub cs" by auto
    then show "\<exists>l r. c # cs = l @ sub @ r"
    proof cases
      case 1
      then obtain r where "c # cs = sub @ r" by (auto simp: startswith_iff)
      then have "c # cs = [] @ sub @ r" by simp
      then show ?thesis by blast
    next
      case 2
      with Cons.IH obtain l r where "cs = l @ sub @ r" by blast
      then have "c # cs = (c # l) @ sub @ r" by simp
      then show ?thesis by blast
    qed
  next
    assume "\<exists>l r. c # cs = l @ sub @ r"
    then obtain l r where eq: "c # cs = l @ sub @ r" by blast
    show "py_in sub (c # cs)"
    proof (cases l)
      case Nil
      with eq have "startswith (c # cs) sub" by (auto simp: startswith_iff)
      then show ?thesis by simp
    next
      case (Cons d ds)
      with eq have "cs = ds @ sub @ r" by simp
      with Cons.IH have "py_in sub cs" by blast
      then show ?thesis by simp
    qed
  qed
qed

subsection \<open>build\<close>

lemma inlet_loop_raises:
  "for_each (build_inlet_block (inlet_list c)) (inlet_list c) b = Raise TypeError b"
  by (simp add: inlet_list_def build_inlet_block_def)

text \<open>
  C2. For every configuration \<^verbatim>\<open>build\<close> raises a TypeError before any inlet state block
  is attached: in the first iteration of the loop over the inlet roles the subscript
  \<^verbatim>\<open>inlet_list[i]\<close> has a string for \<open>i\<close>, so the tray is left as \<^verbatim>\<open>build\<close> found it
  and \<^verbatim>\<open>build\<close> never completes.
\<close>

theorem build_raises_TypeError: "build b = Raise TypeError b"
  by (simp add: build_def and_then_def inlet_loop_raises)

text \<open>
  C8. A tray built with \<^verbatim>\<open>is_feed_tray=True\<close> should expose the three inlet ports
  \<^verbatim>\<open>feed\<close>, \<^verbatim>\<open>liq_in\<close> and \<^verbatim>\<open>vap_in\<close>. On the feed-tray example \<^verbatim>\<open>build\<close> ends with a
  TypeError and the tray exposes no inlet port at all.
\<close>

theorem build_feed_tray_exposes_no_port:
  "build (example_tray (example_config True False False example_members))
     = Raise TypeError (example_tray (example_config True False False example_members))
   \<and> inlet_ports (state_of
         (build (example_tray (example_config True False False example_members)))) = {}"
  by (simp add: build_def and_then_def inlet_loop_raises inlet_ports_def example_tray_def)

text \<open>The inlet part of \<^verbatim>\<open>_add_ports\<close> by itself does add the three ports of a feed tray
  and the two of a conventional tray.\<close>

lemma inlet_ports_add_inlet_ports:
  "inlet_ports (add_inlet_ports b) =
     inlet_ports b \<union> (if is_feed_tray (config b) then {''feed'', ''liq_in'', ''vap_in''}
                        else {''liq_in'', ''vap_in''})"
  by (auto simp: inlet_ports_def add_inlet_ports_def add_inlet_port_def set_attr_def Let_def)

subsection \<open>initialize\<close>

text \<open>
  C7. If a liquid or vapor side draw is configured and its split fraction is not fixed,
  \<^verbatim>\<open>initialize\<close> raises an exception and leaves the tray as it was: no state block
  initialised, no constraint toggled, no variable fixed, no solver call.
\<close>

theorem initialize_unfixed_split_fraction:
  assumes "(has_liquid_side_draw (config b) \<and> \<not> var_fixed b ''liq_side_sf'')
         \<or> (has_vapor_side_draw (config b) \<and> \<not> var_fixed b ''vap_side_sf'')"
  shows "\<exists>msg. initialize init solver outlvl b = Raise (Exception msg) b"
  using assms by (auto simp: initialize_def)

theorem initialize_unfixed_split_fraction_witness:
  "has_liquid_side_draw (config (example_tray (example_config False True False example_members)))
   \<and> \<not> var_fixed (example_tray (example_config False True False example_members)) ''liq_side_sf''
   \<and> (\<exists>msg. initialize example_init (Some example_solver) 0
               (example_tray (example_config False True False example_members))
             = Raise (Exception msg)
                 (example_tray (example_config False True False example_members)))"
  using initialize_unfixed_split_fraction
          [of "example_tray (example_config False True False example_members)"
              example_init "Some example_solver" 0]
  by (simp add: example_tray_def example_config_def)

lemma trace_properties_initialize:
  "trace (properties_initialize init blk outlvl b) = trace b @ [InitializeBlock blk outlvl]"
  by (simp add: properties_initialize_def)

lemma trace_flags:
  "trace (deactivate c b) = trace b" "trace (activate c b) = trace b"
  "trace (fix_var x r b) = trace b" "trace (unfix_var x b) = trace b"
  by (simp_all add: deactivate_def activate_def fix_var_def unfix_var_def)

lemma trace_log_info: "trace (log_info msg b) = trace b @ [LogInfo msg]"
  by (simp add: log_info_def)

lemma solves_solve_and_log:
  "solve_and_log s tee m1 m2 b = (tc, b') \<Longrightarrow>
   filter is_solve (trace b') = filter is_solve (trace b) @ [Solve tee]"
  by (auto simp: solve_and_log_def solve_def trace_log_info)

lemma solves_initialize_state_blocks:
  "filter is_solve (trace (state_of (initialize_state_blocks init outlvl b)))
     = filter is_solve (trace b)"
  by (simp add: initialize_state_blocks_def Let_def trace_properties_initialize trace_flags
           split: sum.splits)

lemma solves_staged_solves:
  "length (filter is_solve (trace (state_of (staged_solves solver outlvl b))))
     \<le> length (filter is_solve (trace b)) + 2"
  by (auto simp: staged_solves_def Let_def trace_log_info trace_flags
           split: option.splits prod.splits dest!: solves_solve_and_log)

lemma solver_calls_state_of: "solver_calls r = length (filter is_solve (trace (state_of r)))"
  by (cases r) (simp_all add: solver_calls_def)

text \<open>Whatever the arguments, \<^verbatim>\<open>initialize\<close> calls the solver at most twice.\<close>

lemma solver_calls_initialize:
  "solver_calls (initialize init solver outlvl b) \<le> solver_calls (Ok b) + 2"
proof (cases "initialize_state_blocks init outlvl b")
  case (Ok b1)
  with solves_initialize_state_blocks [of init outlvl b]
  have "filter is_solve (trace b1) = filter is_solve (trace b)" by simp
  with solves_staged_solves [of solver outlvl b1] Ok show ?thesis
    by (simp add: solver_calls_state_of initialize_def and_then_def)
next
  case (Raise e b1)
  with solves_initialize_state_blocks [of init outlvl b] show ?thesis
    by (simp add: solver_calls_state_of initialize_def and_then_def)
qed

lemmas initialize_steps =
  initialize_state_blocks_def staged_solves_def solve_and_log_def and_then_def
  properties_initialize_def deactivate_def activate_def fix_var_def unfix_var_def
  solve_def log_info_def average_temperature_def

text \<open>
  C1. \<^verbatim>\<open>initialize\<close> should call the solver once per stage, three times, the last time
  on the complete system. On the conventional example tray with a solver that reports
  \<open>optimal\<close> it returns normally after two solver calls: nothing is solved after the
  pressure balance is activated again, and the closing log line repeats the outcome of
  the second solve.
\<close>

theorem initialize_solves_twice:
  "solver_calls (initialize example_init (Some example_solver) 0
     (example_tray (example_config False False False example_members))) = 2
   \<and> is_ok (initialize example_init (Some example_solver) 0
     (example_tray (example_config False False False example_members)))
   \<and> trace (state_of (initialize example_init (Some example_solver) 0
       (example_tray (example_config False False False example_members)))) =
     [InitializeBlock ''properties_in_liq'' 0, InitializeBlock ''properties_in_vap'' 0,
      InitializeBlock ''properties_out'' 0,
      Solve False, LogInfo ''fs.tray Mass balance solve successful.'',
      Solve False, LogInfo ''fs.tray Mass/Energy balance solve successful.'',
      LogInfo ''fs.tray Tray initialisation complete.'']"
  by (simp add: solver_calls_def initialize_def initialize_steps Let_def example_defs)

subsection \<open>The material balance\<close>

lemma eval_foldl_Add: "eval v (foldl Add a es) = eval v a + sum_list (map (eval v) es)"
  by (induction es arbitrary: a) simp_all

lemma eval_py_sum: "eval v (py_sum es) = sum_list (map (eval v) es)"
  by (simp add: py_sum_def eval_foldl_Add)

lemma map_of_keyed:
  assumes "inj g" "x \<in> set xs"
  shows "map_of (map (\<lambda>x. (g x, f x)) xs) (g x) = Some (f x)"
  using assms(2)
proof (induction xs)
  case Nil
  then show ?case by simp
next
  case (Cons y ys)
  then show ?case using assms(1) by (auto dest: injD)
qed

lemma inj_Idx2: "inj (\<lambda>(t, j). Idx2 t j)"
  by (auto simp: inj_on_def)

lemma material_balance_data_lookup:
  assumes "t \<in> set (flowsheet_time b)" "j \<in> set (component_list (property_package (config b)))"
  shows "map_of (material_balance_data b) (Idx2 t j)
           = Some (Equality (Lit 0) (material_mixing_sum b t j))"
proof -
  have "(t, j) \<in> set (List.product (flowsheet_time b)
                        (component_list (property_package (config b))))"
    using assms by simp
  from map_of_keyed [OF inj_Idx2 this,
         of "\<lambda>(t, j). Equality (Lit 0) (material_mixing_sum b t j)"]
  show ?thesis by (simp add: material_balance_data_def case_prod_unfold)
qed

text \<open>A sum over at least one Pyomo object is no plain number.\<close>

lemma number_value_foldl_start:
  "number_value a = None \<Longrightarrow> number_value (foldl Add a es) = None"
  by (induction es arbitrary: a) simp_all

lemma number_value_py_sum:
  assumes "es \<noteq> []" "\<And>e. e \<in> set es \<Longrightarrow> number_value e = None"
  shows "number_value (py_sum es) = None"
proof (cases es)
  case Nil
  with assms(1) show ?thesis by simp
next
  case (Cons e rest)
  with assms(2) have "number_value (Add (Lit 0) e) = None" by simp
  from number_value_foldl_start [OF this] Cons show ?thesis
    by (simp add: py_sum_def)
qed

lemma py_eq_zero_sum:
  assumes "es \<noteq> []" "\<And>e. e \<in> set es \<Longrightarrow> number_value e = None"
  shows "py_eq (Lit 0) (py_sum es) = Relation (Equality (Lit 0) (py_sum es))"
  by (simp add: py_eq_def number_value_py_sum [OF assms])

lemma material_mixing_equations_relation:
  assumes "phase_list (property_package (config b)) \<noteq> []"
  shows "material_mixing_equations b t j
           = Relation (Equality (Lit 0) (material_mixing_sum b t j))"
proof (cases "is_feed_tray (config b)")
  case True
  then show ?thesis
    using assms
    by (simp add: material_mixing_equations_def material_mixing_sum_def)
       (rule py_eq_zero_sum, auto)
next
  case False
  then show ?thesis
    using assms
    by (simp add: material_mixing_equations_def material_mixing_sum_def)
       (rule py_eq_zero_sum, auto)
qed

lemma construct_constraint_relations:
  "construct_constraint (map (\<lambda>x. (g x, Relation (f x))) xs) = Inr (map (\<lambda>x. (g x, f x)) xs)"
  by (induction xs) simp_all

lemma add_material_balance_Ok:
  assumes "phase_list (property_package (config b)) \<noteq> []"
  shows "add_material_balance b
           = Ok (new_constraint ''material_mixing_equations'' (material_balance_data b) b)"
proof -
  have "map (\<lambda>(t, j). (Idx2 t j, material_mixing_equations b t j))
          (List.product (flowsheet_time b) (component_list (property_package (config b))))
        = map (\<lambda>x. (Idx2 (fst x) (snd x),
                      Relation (Equality (Lit 0) (material_mixing_sum b (fst x) (snd x)))))
            (List.product (flowsheet_time b) (component_list (property_package (config b))))"
    by (simp add: material_mixing_equations_relation [OF assms] case_prod_unfold)
  then have "add_material_balance b
        = add_constraint ''material_mixing_equations''
            (map (\<lambda>x. (Idx2 (fst x) (snd x),
                      Relation (Equality (Lit 0) (material_mixing_sum b (fst x) (snd x)))))
               (List.product (flowsheet_time b) (component_list (property_package (config b)))))
            b"
    by (simp only: add_material_balance_def)
  then show ?thesis
    by (simp add: add_constraint_def construct_constraint_relations
                  material_balance_data_def case_prod_unfold)
qed

text \<open>
  C4, as amended. For a property package with at least one phase,
  \<^verbatim>\<open>_add_material_balance\<close> returns with \<^verbatim>\<open>material_mixing_equations\<close> holding exactly
  one equality constraint per pair of time point and component: its index list is the
  product of the time set and the component list, and the constraint at \<open>(t, j)\<close> equates
  \<open>0\<close> with the sum over all phases of the inlet material flow terms (feed, liquid and
  vapor on a feed tray, liquid and vapor otherwise) minus the outlet's term.
\<close>

theorem material_balance_one_per_pair:
  assumes "phase_list (property_package (config b)) \<noteq> []"
  shows "is_ok (add_material_balance b)
   \<and> (\<exists>d. comps (state_of (add_material_balance b)) ''material_mixing_equations''
            = Some (ConstraintComponent d)
        \<and> map fst d
            = indices2 (flowsheet_time b) (component_list (property_package (config b)))
        \<and> (\<forall>t \<in> set (flowsheet_time b).
             \<forall>j \<in> set (component_list (property_package (config b))).
               \<exists>body. map_of d (Idx2 t j) = Some (Equality (Lit 0) body)
                 \<and> eval v body =
                     (\<Sum>p \<leftarrow> phase_list (property_package (config b)).
                        (if is_feed_tray (config b)
                         then material_flow_value v ''properties_in_feed'' t p j else 0)
                        + material_flow_value v ''properties_in_liq'' t p j
                        + material_flow_value v ''properties_in_vap'' t p j
                        - material_flow_value v ''properties_out'' t p j)))"
proof -
  note run = add_material_balance_Ok [OF assms]
  have stored: "comps (state_of (add_material_balance b)) ''material_mixing_equations''
                  = Some (ConstraintComponent (material_balance_data b))"
    by (simp add: run new_constraint_def set_attr_def)
  have keys: "map fst (material_balance_data b)
                = indices2 (flowsheet_time b) (component_list (property_package (config b)))"
    by (simp add: material_balance_data_def indices2_def case_prod_unfold comp_def)
  have each: "\<exists>body. map_of (material_balance_data b) (Idx2 t j) = Some (Equality (Lit 0) body)
            \<and> eval v body =
                (\<Sum>p \<leftarrow> phase_list (property_package (config b)).
                   (if is_feed_tray (config b)
                    then material_flow_value v ''properties_in_feed'' t p j else 0)
                   + material_flow_value v ''properties_in_liq'' t p j
                   + material_flow_value v ''properties_in_vap'' t p j
                   - material_flow_value v ''properties_out'' t p j)"
    if "t \<in> set (flowsheet_time b)"
      and "j \<in> set (component_list (property_package (config b)))" for t j
    using material_balance_data_lookup [OF that]
    by (simp add: material_mixing_sum_def eval_py_sum comp_def)
  from stored keys each show ?thesis
    by (auto simp: run)
qed

theorem material_balance_one_per_pair_witness:
  "phase_list (property_package (config
       (example_tray (example_config False False False example_members)))) \<noteq> []
   \<and> is_ok (add_material_balance
        (example_tray (example_config False False False example_members)))
   \<and> (\<exists>d. comps (state_of (add_material_balance
               (example_tray (example_config False False False example_members))))
             ''material_mixing_equations'' = Some (ConstraintComponent d)
        \<and> length d = 2
        \<and> (\<exists>body. map_of d (Idx2 0 ''benzene'') = Some (Equality (Lit 0) body)
             \<and> eval example_valuation body = 2))"
proof -
  let ?b = "example_tray (example_config False False False example_members)"
  have phases: "phase_list (property_package (config ?b)) \<noteq> []"
    and t: "(0::real) \<in> set (flowsheet_time ?b)"
    and j: "''benzene'' \<in> set (component_list (property_package (config ?b)))"
    by (simp_all add: example_defs)
  from material_balance_one_per_pair [OF phases, of example_valuation]
  obtain d where ok: "is_ok (add_material_balance ?b)"
    and stored: "comps (state_of (add_material_balance ?b)) ''material_mixing_equations''
                   = Some (ConstraintComponent d)"
    and keys: "map fst d
                 = indices2 (flowsheet_time ?b) (component_list (property_package (config ?b)))"
    and each: "\<forall>t \<in> set (flowsheet_time ?b).
             \<forall>j \<in> set (component_list (property_package (config ?b))).
               \<exists>body. map_of d (Idx2 t j) = Some (Equality (Lit 0) body)
                 \<and> eval example_valuation body =
                     (\<Sum>p \<leftarrow> phase_list (property_package (config ?b)).
                        (if is_feed_tray (config ?b)
                         then material_flow_value example_valuation ''properties_in_feed'' t p j
                         else 0)
                        + material_flow_value example_valuation ''properties_in_liq'' t p j
                        + material_flow_value example_valuation ''properties_in_vap'' t p j
                        - material_flow_value example_valuation ''properties_out'' t p j)"
    by blast
  from keys have "length (map fst d) = 2"
    by (simp add: indices2_def example_defs)
  then have len: "length d = 2" by simp
  from each t j obtain body
    where "map_of d (Idx2 0 ''benzene'') = Some (Equality (Lit 0) body)"
      and "eval example_valuation body =
             (\<Sum>p \<leftarrow> phase_list (property_package (config ?b)).
                (if is_feed_tray (config ?b)
                 then material_flow_value example_valuation ''properties_in_feed'' 0 p ''benzene''
                 else 0)
                + material_flow_value example_valuation ''properties_in_liq'' 0 p ''benzene''
                + material_flow_value example_valuation ''properties_in_vap'' 0 p ''benzene''
                - material_flow_value example_valuation ''properties_out'' 0 p ''benzene'')"
    by blast
  then have "\<exists>body. map_of d (Idx2 0 ''benzene'') = Some (Equality (Lit 0) body)
               \<and> eval example_valuation body = 2"
    by (simp add: example_defs example_valuation_def)
  with phases ok stored len show ?thesis by blast
qed

text \<open>
  C4 as stated fails: with no phase, \<^verbatim>\<open>sum\<close> is the integer \<open>0\<close>, the rule returns the
  bool of \<^verbatim>\<open>0 == 0\<close>, and the construction of the Constraint ends with a ValueError at
  the first pair.
\<close>

theorem material_balance_counterexample:
  "phase_list (property_package (config example_tray_without_phases)) = []
   \<and> material_mixing_equations example_tray_without_phases 0 ''benzene'' = PyBool True
   \<and> error_of (add_material_balance example_tray_without_phases) = Some ValueError"
  by (simp add: example_tray_without_phases_def example_tray_def add_material_balance_def
                add_constraint_def material_mixing_equations_def py_eq_def py_sum_def)

text \<open>Time set and component list are sets: no pair is indexed twice.\<close>

lemma material_balance_indices_distinct:
  assumes "distinct (flowsheet_time b)"
    and "distinct (component_list (property_package (config b)))"
  shows "distinct (map fst (material_balance_data b))"
proof -
  have "map fst (material_balance_data b)
          = map (\<lambda>(t, j). Idx2 t j)
              (List.product (flowsheet_time b)
                 (component_list (property_package (config b))))"
    by (simp add: material_balance_data_def case_prod_unfold comp_def)
  moreover have "inj_on (\<lambda>(t, j). Idx2 t j) A" for A :: "(time \<times> string) set"
    by (auto simp: inj_on_def)
  ultimately show ?thesis
    using assms by (simp add: distinct_map distinct_product)
qed

subsection \<open>The resolver: frame and loop\<close>

lemma port_add_simps:
  "config (port_add p v k b) = config b"
  "flowsheet_time (port_add p v k b) = flowsheet_time b"
  "comps (port_add p v k b) = comps b"
  "port_vars (port_add p v k b) = (port_vars b)(p := (port_vars b p)(k \<mapsto> v))"
  by (simp_all add: port_add_def)

lemma set_attr_simps:
  "config (set_attr n c b) = config b"
  "flowsheet_time (set_attr n c b) = flowsheet_time b"
  "comps (set_attr n c b) = (comps b)(n \<mapsto> c)"
  "port_vars (set_attr n c b) = port_vars b"
  by (simp_all add: set_attr_def)

lemma new_port_simps:
  "config (new_port p b) = config b"
  "flowsheet_time (new_port p b) = flowsheet_time b"
  "comps (new_port p b) = (comps b)(p \<mapsto> PortComponent)"
  "port_vars (new_port p b) = (port_vars b)(p := Map.empty)"
  by (simp_all add: new_port_def set_attr_def)

lemma new_var_simps:
  "config (new_var n r b) = config b"
  "flowsheet_time (new_var n r b) = flowsheet_time b"
  "comps (new_var n r b) = (comps b)(n \<mapsto> VarComponent r)"
  "port_vars (new_var n r b) = port_vars b"
  by (simp_all add: new_var_def set_attr_def)

lemma add_and_export_Ok:
  assumes "add_and_export n ixs rule port k cur b = Ok (b', cur')"
  shows "cur' = cur \<and> comps b n = None \<and>
         (\<exists>d. construct ixs rule = Inr d \<and>
               b' = port_add port (PortExpression d) k (set_attr n (ExpressionComponent d) b))"
  using assms
  by (auto simp: add_and_export_def add_component_def split: if_splits sum.splits)

lemma touched_intros:
  "touched port k b b"
  "touched port k b (port_add port v k b)"
  "touched port k b (port_add port v k (set_attr n c b))"
  by (auto simp: touched_def)

lemma touched_add_and_export:
  "add_and_export n ixs rule port k cur b = Ok (b', cur') \<Longrightarrow> touched port k b b'"
  by (auto simp: touched_def dest!: add_and_export_Ok)

lemma step_touched:
  assumes "phase_split_member port phase sf (k, m) (b, cur) = Ok (b', cur')"
  shows "touched port k b b'"
  using assms
  by (auto simp: phase_split_member_def Let_def
           split: if_splits sum.splits intro: touched_intros dest: touched_add_and_export)

lemma touched_frame:
  assumes "touched port k b b'"
  shows "config b' = config b" "flowsheet_time b' = flowsheet_time b"
    "p \<noteq> port \<Longrightarrow> port_vars b' p = port_vars b p"
    "k' \<noteq> k \<Longrightarrow> port_vars b' port k' = port_vars b port k'"
  using assms by (auto simp: touched_def port_add_simps set_attr_simps)


lemmas step_frame = touched_frame [OF step_touched]

subsection \<open>The loop\<close>

lemma for_each_append:
  "for_each body (xs @ ys) s = and_then (for_each body xs s) (for_each body ys)"
  by (induction xs arbitrary: s) (auto simp: and_then_def split: result.splits)

lemma loop_frame:
  assumes "for_each (phase_split_member port phase sf) ms (b, cur) = Ok (b', cur')"
  shows "config b' = config b \<and> flowsheet_time b' = flowsheet_time b \<and>
         (\<forall>p. p \<noteq> port \<longrightarrow> port_vars b' p = port_vars b p) \<and>
         (\<forall>k. k \<notin> fst ` set ms \<longrightarrow> port_vars b' port k = port_vars b port k)"
  using assms
proof (induction ms arbitrary: b cur)
  case Nil
  then show ?case by simp
next
  case (Cons x xs)
  obtain k m where x: "x = (k, m)" by (cases x)
  from Cons.prems obtain b1 cur1
    where step: "phase_split_member port phase sf (k, m) (b, cur) = Ok (b1, cur1)"
      and rest: "for_each (phase_split_member port phase sf) xs (b1, cur1) = Ok (b', cur')"
    by (auto simp: x split: result.splits)
  from Cons.IH [OF rest] step_frame [OF step] show ?case
    by (auto simp: x)
qed

lemma loop_entry:
  assumes "for_each (phase_split_member port phase sf) ms (b, cur) = Ok (b', cur')"
    and "distinct (map fst ms)" and "(k, m) \<in> set ms"
    and "exports port phase sf (k, m) b r"
  shows "port_vars b' port k = entry_after r (port_vars b port k)"
  using assms
proof (induction ms arbitrary: b cur)
  case Nil
  then show ?case by simp
next
  case (Cons x xs)
  obtain k0 m0 where x: "x = (k0, m0)" by (cases x)
  from Cons.prems(1) obtain b1 cur1
    where step: "phase_split_member port phase sf (k0, m0) (b, cur) = Ok (b1, cur1)"
      and rest: "for_each (phase_split_member port phase sf) xs (b1, cur1) = Ok (b', cur')"
    by (auto simp: x split: result.splits)
  note fr = step_frame [OF step]
  show ?case
  proof (cases "(k, m) = x")
    case True
    with step Cons.prems(4)
    have "port_vars b1 port k = entry_after r (port_vars b port k)"
      by (auto simp: exports_def x)
    moreover from True Cons.prems(2) have "k \<notin> fst ` set xs"
      by (auto simp: x)
    ultimately show ?thesis using loop_frame [OF rest] by simp
  next
    case False
    with Cons.prems(3) have in_xs: "(k, m) \<in> set xs" by simp
    with Cons.prems(2) have "k \<noteq> k0" by (force simp: x)
    with fr(4) have old: "port_vars b1 port k = port_vars b port k" by simp
    from Cons.prems(4) fr(1,2) have "exports port phase sf (k, m) b1 r"
      by (simp add: exports_def)
    with Cons.IH [OF rest _ in_xs] Cons.prems(2) old show ?thesis by simp
  qed
qed

subsection \<open>One port\<close>

lemma make_phase_split_frame:
  assumes "make_phase_split port phase sf b = Ok b'"
  shows "config b' = config b" "flowsheet_time b' = flowsheet_time b"
    "p \<noteq> port \<Longrightarrow> port_vars b' p = port_vars b p"
  using assms loop_frame [of port phase sf "define_port_members (property_package (config b))" b None]
  by (auto simp: make_phase_split_def split: if_splits result.splits)

lemma make_phase_split_entry:
  assumes "make_phase_split port phase sf b = Ok b'"
    and "distinct (map fst (define_port_members (property_package (config b))))"
    and "(k, m) \<in> set (define_port_members (property_package (config b)))"
    and "exports port phase sf (k, m) b r"
  shows "port_vars b' port k = entry_after r (port_vars b port k)"
proof -
  from assms(1) obtain cur' where
    "for_each (phase_split_member port phase sf)
       (define_port_members (property_package (config b))) (b, None) = Ok (b', cur')"
    by (auto simp: make_phase_split_def split: if_splits result.splits)
  from loop_entry [OF this assms(2,3,4)] show ?thesis .
qed

lemma exports_cong:
  "config b1 = config b \<Longrightarrow> flowsheet_time b1 = flowsheet_time b \<Longrightarrow>
   exports port phase sf km b1 r = exports port phase sf km b r"
  by (simp add: exports_def)


subsection \<open>All ports\<close>

lemma and_then_Ok: "and_then r f = Ok s' \<longleftrightarrow> (\<exists>s. r = Ok s \<and> f s = Ok s')"
  by (cases r) (simp_all add: and_then_def)

lemma add_liquid_ports_pair:
  "add_liquid_ports b =
     outlet_pair ''liq_out'' ''liq_side_draw'' ''liq_side_sf'' ''Liq''
       (has_liquid_side_draw (config b)) b"
  by (simp add: add_liquid_ports_def outlet_pair_def Let_def new_port_simps)

lemma add_vapor_ports_pair:
  "add_vapor_ports b =
     outlet_pair ''vap_out'' ''vap_side_draw'' ''vap_side_sf'' ''Vap''
       (has_vapor_side_draw (config b)) b"
  by (simp add: add_vapor_ports_def outlet_pair_def Let_def new_port_simps)

lemma make_phase_split_same:
  "make_phase_split port phase sf b = Ok b' \<Longrightarrow>
   config b' = config b \<and> flowsheet_time b' = flowsheet_time b \<and>
   (\<forall>p. p \<noteq> port \<longrightarrow> port_vars b' p = port_vars b p)"
  by (simp add: make_phase_split_frame)

lemma outlet_pair_frame:
  assumes "outlet_pair main side sfv phase has b = Ok b'"
  shows "config b' = config b" "flowsheet_time b' = flowsheet_time b"
    "p \<noteq> main \<Longrightarrow> p \<noteq> side \<Longrightarrow> port_vars b' p = port_vars b p"
  using assms
  by (auto simp: outlet_pair_def and_then_Ok new_port_simps new_var_simps set_attr_simps
           split: if_splits dest!: make_phase_split_same)

lemma outlet_pair_entry:
  assumes ok: "outlet_pair main side sfv phase has b = Ok b'"
    and ne: "main \<noteq> side"
    and dist: "distinct (map fst (define_port_members (property_package (config b))))"
    and mem: "(k, m) \<in> set (define_port_members (property_package (config b)))"
    and call: "(port, sf) \<in> set (pair_calls main side sfv has)"
    and ex: "exports port phase sf (k, m) b r"
  shows "port_vars b' port k = r"
proof (cases has)
  case False
  let ?b1 = "new_port main b"
  from False ok have run: "make_phase_split main phase (Lit 1) ?b1 = Ok b'"
    by (simp add: outlet_pair_def)
  from False call have [simp]: "port = main" "sf = Lit 1"
    by (simp_all add: pair_calls_def)
  have same: "config ?b1 = config b" "flowsheet_time ?b1 = flowsheet_time b"
    by (simp_all add: new_port_simps)
  from ex have "exports main phase (Lit 1) (k, m) ?b1 r"
    by (simp add: exports_cong [OF same])
  from make_phase_split_entry [OF run _ _ this] dist mem same show ?thesis
    by (simp add: entry_after_def new_port_simps split: option.splits)
next
  case True
  let ?b3 = "new_port side (new_var sfv 0.01 (new_port main b))"
  have same: "config ?b3 = config b" "flowsheet_time ?b3 = flowsheet_time b"
    by (simp_all add: new_port_simps new_var_simps set_attr_simps)
  from True ok obtain b4
    where run1: "make_phase_split side phase (VarRef sfv) ?b3 = Ok b4"
      and run2: "make_phase_split main phase (Sub (Lit 1) (VarRef sfv)) b4 = Ok b'"
    by (auto simp: outlet_pair_def and_then_Ok)
  note fr1 = make_phase_split_frame [OF run1]
  note fr2 = make_phase_split_frame [OF run2]
  from True call consider "port = side" "sf = VarRef sfv"
    | "port = main" "sf = Sub (Lit 1) (VarRef sfv)"
    by (auto simp: pair_calls_def)
  then show ?thesis
  proof cases
    case 1
    from ex have "exports port phase sf (k, m) ?b3 r"
      by (simp only: exports_cong [OF same])
    with 1 have "exports side phase (VarRef sfv) (k, m) ?b3 r" by simp
    from make_phase_split_entry [OF run1 _ _ this] dist mem same
    have "port_vars b4 side k = r" by (simp add: entry_after_def new_port_simps new_var_simps set_attr_simps split: option.splits)
    with fr2(3) [of side] ne 1 show ?thesis by simp
  next
    case 2
    from fr1 same have same4: "config b4 = config b" "flowsheet_time b4 = flowsheet_time b"
      by simp_all
    from ex 2 have "exports main phase (Sub (Lit 1) (VarRef sfv)) (k, m) b4 r"
      by (simp add: exports_cong [OF same4])
    from make_phase_split_entry [OF run2 _ _ this] dist mem same4 2
    have "port_vars b' main k = entry_after r (port_vars b4 main k)" by simp
    moreover from fr1(3) [of main] ne
    have "port_vars b4 main k = None" by (simp add: new_port_simps new_var_simps set_attr_simps)
    ultimately show ?thesis using 2 by (simp add: entry_after_def split: option.splits)
  qed
qed

lemma add_inlet_ports_frame:
  "config (add_inlet_ports b) = config b"
  "flowsheet_time (add_inlet_ports b) = flowsheet_time b"
  "port_vars (add_inlet_ports b) = port_vars b"
  by (simp_all add: add_inlet_ports_def add_inlet_port_def Let_def set_attr_simps)

lemma outlet_calls_pairs:
  "(port, phase, sf) \<in> set (outlet_calls c) \<longleftrightarrow>
     (phase = ''Liq'' \<and>
      (port, sf) \<in> set (pair_calls ''liq_out'' ''liq_side_draw'' ''liq_side_sf''
                          (has_liquid_side_draw c))) \<or>
     (phase = ''Vap'' \<and>
      (port, sf) \<in> set (pair_calls ''vap_out'' ''vap_side_draw'' ''vap_side_sf''
                          (has_vapor_side_draw c)))"
  by (auto simp: outlet_calls_def pair_calls_def)

lemma add_ports_entry:
  assumes ok: "add_ports b = Ok b'"
    and dist: "distinct (map fst (define_port_members (property_package (config b))))"
    and mem: "(k, m) \<in> set (define_port_members (property_package (config b)))"
    and call: "(port, phase, sf) \<in> set (outlet_calls (config b))"
    and ex: "exports port phase sf (k, m) b r"
  shows "port_vars b' port k = r"
proof -
  let ?b0 = "add_inlet_ports b"
  note same0 = add_inlet_ports_frame(1,2) [of b]
  from ok obtain b1
    where liq: "outlet_pair ''liq_out'' ''liq_side_draw'' ''liq_side_sf'' ''Liq''
                  (has_liquid_side_draw (config b)) ?b0 = Ok b1"
      and vap0: "outlet_pair ''vap_out'' ''vap_side_draw'' ''vap_side_sf'' ''Vap''
                  (has_vapor_side_draw (config b1)) b1 = Ok b'"
    by (auto simp: add_ports_def and_then_Ok add_liquid_ports_pair add_vapor_ports_pair same0)
  from outlet_pair_frame(1,2) [OF liq] same0
  have same1: "config b1 = config b" "flowsheet_time b1 = flowsheet_time b" by simp_all
  from vap0 same1
  have vap: "outlet_pair ''vap_out'' ''vap_side_draw'' ''vap_side_sf'' ''Vap''
               (has_vapor_side_draw (config b)) b1 = Ok b'" by simp
  from call consider
      (L) "phase = ''Liq''"
          "(port, sf) \<in> set (pair_calls ''liq_out'' ''liq_side_draw'' ''liq_side_sf''
                               (has_liquid_side_draw (config b)))"
    | (V) "phase = ''Vap''"
          "(port, sf) \<in> set (pair_calls ''vap_out'' ''vap_side_draw'' ''vap_side_sf''
                               (has_vapor_side_draw (config b)))"
    by (auto simp: outlet_calls_pairs)
  then show ?thesis
  proof cases
    case L
    from ex L(1) have "exports port ''Liq'' sf (k, m) ?b0 r"
      by (simp add: exports_cong [OF same0])
    from outlet_pair_entry [OF liq _ _ _ L(2) this] dist mem same0
    have "port_vars b1 port k = r" by (simp add: entry_after_def new_port_simps new_var_simps set_attr_simps split: option.splits)
    moreover from L(2) have "port \<noteq> ''vap_out''" "port \<noteq> ''vap_side_draw''"
      by (auto simp: pair_calls_def split: if_splits)
    ultimately show ?thesis using outlet_pair_frame(3) [OF vap, of port] by simp
  next
    case V
    from ex V(1) have "exports port ''Vap'' sf (k, m) b1 r"
      by (simp add: exports_cong [OF same1])
    from outlet_pair_entry [OF vap _ _ _ V(2) this] dist mem same1
    show ?thesis by simp
  qed
qed

subsection \<open>The resolver: one member\<close>

text \<open>Members exported as a shared reference.\<close>

lemma step_reference:
  assumes "intensive_member k \<or> (fraction_member k \<and> py_in ''phase'' k)
           \<or> (enthalpy_member k \<and> py_in ''phase'' k)"
  shows "phase_split_member port phase sf (k, m) (b, cur)
           = Ok (port_add port (shared_reference k m) k b, cur)"
  using assms
  by (auto simp: phase_split_member_def intensive_member_def fraction_member_def
                 enthalpy_member_def shared_reference_def)

lemma exports_reference:
  assumes "intensive_member k \<or> (fraction_member k \<and> py_in ''phase'' k)
           \<or> (enthalpy_member k \<and> py_in ''phase'' k)"
  shows "exports port phase sf (k, m) b (Some (shared_reference k m))"
  by (simp add: exports_def step_reference [OF assms] port_add_simps entry_after_def)

text \<open>Members the resolver passes over.\<close>

lemma step_omitted:
  assumes "py_in ''flow'' k" "py_in ''phase'' k" "\<not> fraction_member k"
  shows "phase_split_member port phase sf (k, m) s = Ok s"
  using assms
  by (cases s) (auto simp: phase_split_member_def fraction_member_def)

lemma exports_omitted:
  assumes "py_in ''flow'' k" "py_in ''phase'' k" "\<not> fraction_member k"
  shows "exports port phase sf (k, m) b None"
  by (auto simp: exports_def step_omitted [OF assms] entry_after_def)

text \<open>Members exported as a synthesized expression.\<close>

lemma construct_total:
  "(\<And>i. i \<in> set ixs \<Longrightarrow> rule i = Inr (f i)) \<Longrightarrow> construct ixs rule = Inr (map (\<lambda>i. (i, f i)) ixs)"
  by (induction ixs) simp_all

lemma construct_flow:
  "construct (indices1 ts) (rule_flow (Some n) phase sf)
     = Inr (map (\<lambda>ix. (ix, Mul (Component ''properties_out'' (index_time ix) n
                                  (phase # index_rest ix)) sf)) (indices1 ts))"
  by (rule construct_total) (auto simp: indices1_def rule_flow_def)

lemma construct_flow_comp:
  "construct (indices2 ts js) (rule_flow_comp (Some n) phase sf)
     = Inr (map (\<lambda>ix. (ix, Mul (Component ''properties_out'' (index_time ix) n
                                  (phase # index_rest ix)) sf)) (indices2 ts js))"
  by (rule construct_total) (auto simp: indices2_def rule_flow_comp_def)

lemma construct_enth:
  "construct (indices1 ts) (rule_enth (Some n) phase)
     = Inr (map (\<lambda>ix. (ix, Component ''properties_out'' (index_time ix) n [phase])) (indices1 ts))"
  by (rule construct_total) (auto simp: indices1_def rule_enth_def)

lemma construct_mole_frac:
  "construct (indices2 ts js) (rule_mole_frac (Some n) phase)
     = Inr (map (\<lambda>ix. (ix, Component ''properties_out'' (index_time ix) n
                             (phase # index_rest ix))) (indices2 ts js))"
  by (rule construct_total) (auto simp: indices2_def rule_mole_frac_def)

lemma step_flow:
  assumes "flow_member k" "\<not> py_in ''phase'' k" "flow_sibling_named m"
  shows "phase_split_member port phase sf (k, m) (b, cur) =
     (if comps b (''e_flow_'' @ port) \<noteq> None then Raise RuntimeError (b, Some (flow_sibling m))
      else Ok (port_add port (PortExpression (flow_data (flowsheet_time b) phase sf m)) k
                 (set_attr (''e_flow_'' @ port)
                    (ExpressionComponent (flow_data (flowsheet_time b) phase sf m)) b),
               Some (flow_sibling m)))"
  using assms
  by (auto simp: phase_split_member_def flow_member_def fraction_member_def
                 flow_sibling_named_def flow_sibling_def flow_data_def Let_def
                 add_and_export_def add_component_def construct_flow construct_flow_comp)

lemma exports_flow:
  assumes "flow_member k" "\<not> py_in ''phase'' k" "flow_sibling_named m"
  shows "exports port phase sf (k, m) b
           (Some (PortExpression (flow_data (flowsheet_time b) phase sf m)))"
  by (auto simp: exports_def step_flow [OF assms] port_add_simps set_attr_simps entry_after_def
           split: if_splits)

lemma step_enth:
  assumes "enthalpy_member k" "\<not> py_in ''phase'' k"
  shows "phase_split_member port phase sf (k, m) (b, cur) =
     (if is_indexed m then Raise (PropertyPackageError ''Expected an unindexed variable.'') (b, cur)
      else if comps b (''e_enth_'' @ port) \<noteq> None
      then Raise RuntimeError (b, Some (local_name m @ ''_phase''))
      else Ok (port_add port (PortExpression (enth_data (flowsheet_time b) phase m)) k
                 (set_attr (''e_enth_'' @ port)
                    (ExpressionComponent (enth_data (flowsheet_time b) phase m)) b),
               Some (local_name m @ ''_phase'')))"
  using assms
  by (auto simp: phase_split_member_def enthalpy_member_def fraction_member_def
                 enth_data_def Let_def add_and_export_def add_component_def construct_enth)


lemma step_fraction_total:
  assumes "fraction_member k" "\<not> py_in ''phase'' k"
  shows "(phase_split_member port phase sf (k, m) (b, cur) = Raise IndexError (b, cur))
           = (length (py_split CHR ''_'' k) < 3)"
    and "length (py_split CHR ''_'' k) < 3 \<Longrightarrow>
           phase_split_member port phase sf (k, m) (b, cur) = Raise IndexError (b, cur)"
  using assms
  by (auto simp: phase_split_member_def fraction_member_def Let_def
                 add_and_export_def add_component_def construct_mole_frac)

lemma loop_passes:
  assumes "for_each body ms s = Ok s'" "x \<in> set ms"
  shows "\<exists>s1 s2. body x s1 = Ok s2"
  using assms
  by (induction ms arbitrary: s) (auto split: result.splits)

lemma loop_passes_phase_split:
  assumes "for_each (phase_split_member port phase sf) ms (b, cur) = Ok s'" "x \<in> set ms"
  shows "\<exists>b1 cur1 s2. config b1 = config b \<and> flowsheet_time b1 = flowsheet_time b \<and>
           phase_split_member port phase sf x (b1, cur1) = Ok s2"
  using assms
proof (induction ms arbitrary: b cur)
  case Nil
  then show ?case by simp
next
  case (Cons y ys)
  obtain k m where y: "y = (k, m)" by (cases y)
  from Cons.prems(1) obtain b1 cur1
    where step: "phase_split_member port phase sf (k, m) (b, cur) = Ok (b1, cur1)"
      and rest: "for_each (phase_split_member port phase sf) ys (b1, cur1) = Ok s'"
    by (auto simp: y split: result.splits)
  show ?case
  proof (cases "x = y")
    case True
    with step y show ?thesis by blast
  next
    case False
    with Cons.prems(2) have "x \<in> set ys" by simp
    from Cons.IH [OF rest this] step_frame(1,2) [OF step] show ?thesis by auto
  qed
qed

lemma make_phase_split_passes:
  assumes "make_phase_split port phase sf b = Ok b'"
    and "x \<in> set (define_port_members (property_package (config b)))"
  shows "\<exists>b1 cur1 s2. config b1 = config b \<and> flowsheet_time b1 = flowsheet_time b \<and>
           phase_split_member port phase sf x (b1, cur1) = Ok s2"
proof -
  from assms(1) obtain s' where
    "for_each (phase_split_member port phase sf)
       (define_port_members (property_package (config b))) (b, None) = Ok s'"
    by (auto simp: make_phase_split_def split: if_splits result.splits)
  from loop_passes_phase_split [OF this assms(2)] show ?thesis .
qed

text \<open>Whenever the ports are built, the main liquid outlet was resolved.\<close>

lemma add_ports_runs_liq_out:
  assumes "is_ok (add_ports b)"
  shows "\<exists>sf b1 b2. config b1 = config b \<and> flowsheet_time b1 = flowsheet_time b \<and>
           make_phase_split ''liq_out'' ''Liq'' sf b1 = Ok b2"
proof -
  from assms obtain b' where "add_ports b = Ok b'" by (cases "add_ports b") simp_all
  then obtain b1 where liq: "outlet_pair ''liq_out'' ''liq_side_draw'' ''liq_side_sf'' ''Liq''
                  (has_liquid_side_draw (config b)) (add_inlet_ports b) = Ok b1"
    by (auto simp: add_ports_def and_then_Ok add_liquid_ports_pair add_inlet_ports_frame)
  show ?thesis
  proof (cases "has_liquid_side_draw (config b)")
    case False
    with liq have "make_phase_split ''liq_out'' ''Liq'' (Lit 1)
                     (new_port ''liq_out'' (add_inlet_ports b)) = Ok b1"
      by (simp add: outlet_pair_def)
    moreover have "config (new_port ''liq_out'' (add_inlet_ports b)) = config b"
      "flowsheet_time (new_port ''liq_out'' (add_inlet_ports b)) = flowsheet_time b"
      by (simp_all add: new_port_simps add_inlet_ports_frame)
    ultimately show ?thesis by blast
  next
    case True
    let ?b3 = "new_port ''liq_side_draw'' (new_var ''liq_side_sf'' 0.01
                 (new_port ''liq_out'' (add_inlet_ports b)))"
    from True liq obtain b4
      where run1: "make_phase_split ''liq_side_draw'' ''Liq'' (VarRef ''liq_side_sf'') ?b3 = Ok b4"
        and run2: "make_phase_split ''liq_out'' ''Liq'' (Sub (Lit 1) (VarRef ''liq_side_sf'')) b4
                     = Ok b1"
      by (auto simp: outlet_pair_def and_then_Ok)
    from make_phase_split_frame(1,2) [OF run1]
    have "config b4 = config b" "flowsheet_time b4 = flowsheet_time b"
      by (simp_all add: new_port_simps new_var_simps set_attr_simps add_inlet_ports_frame)
    with run2 show ?thesis by blast
  qed
qed

subsection \<open>The resolver: shared references\<close>

lemma example_tray_simps:
  "config (example_tray c) = c"
  "flowsheet_time (example_tray c) = [0]"
  "comps (example_tray c) = Map.empty"
  "port_vars (example_tray c) = (\<lambda>p. Map.empty)"
  by (simp_all add: example_tray_def)

lemmas port_eval =
  add_ports_def add_inlet_ports_def add_inlet_port_def add_liquid_ports_def
  add_vapor_ports_def and_then_def make_phase_split_def phase_split_member_def
  add_and_export_def add_component_def indices1_def indices2_def
  rule_mole_frac_def rule_flow_def rule_flow_comp_def rule_enth_def
  port_add_simps set_attr_simps new_port_simps new_var_simps Let_def example_tray_simps
  example_config_def example_package_def example_member_def

lemma add_ports_frame:
  assumes "is_ok (add_ports b)"
  shows "config (state_of (add_ports b)) = config b"
    "flowsheet_time (state_of (add_ports b)) = flowsheet_time b"
proof -
  from assms obtain b' where ok: "add_ports b = Ok b'" by (cases "add_ports b") simp_all
  then obtain b1
    where liq: "outlet_pair ''liq_out'' ''liq_side_draw'' ''liq_side_sf'' ''Liq''
                  (has_liquid_side_draw (config b)) (add_inlet_ports b) = Ok b1"
      and vap: "outlet_pair ''vap_out'' ''vap_side_draw'' ''vap_side_sf'' ''Vap''
                  (has_vapor_side_draw (config b1)) b1 = Ok b'"
    by (auto simp: add_ports_def and_then_Ok add_liquid_ports_pair add_vapor_ports_pair
                   add_inlet_ports_frame)
  from outlet_pair_frame(1,2) [OF liq] outlet_pair_frame(1,2) [OF vap] ok
  show "config (state_of (add_ports b)) = config b"
    "flowsheet_time (state_of (add_ports b)) = flowsheet_time b"
    by (simp_all add: add_inlet_ports_frame)
qed

lemma add_ports_uniform:
  assumes ok: "is_ok (add_ports b)"
    and dist: "distinct (map fst (define_port_members (property_package (config b))))"
    and mem: "(k, m) \<in> set (define_port_members (property_package (config b)))"
    and ex: "\<And>port phase sf. exports port phase sf (k, m) b r"
  shows "port_vars (state_of (add_ports b)) ''liq_out'' k = r"
    and "port_vars (state_of (add_ports b)) ''vap_out'' k = r"
    and "has_liquid_side_draw (config b) \<Longrightarrow>
           port_vars (state_of (add_ports b)) ''liq_side_draw'' k = r"
    and "has_vapor_side_draw (config b) \<Longrightarrow>
           port_vars (state_of (add_ports b)) ''vap_side_draw'' k = r"
proof -
  from ok obtain b' where run: "add_ports b = Ok b'" by (cases "add_ports b") simp_all
  note entry = add_ports_entry [OF run dist mem _ ex]
  have "\<exists>sf. (''liq_out'', ''Liq'', sf) \<in> set (outlet_calls (config b))"
    and "\<exists>sf. (''vap_out'', ''Vap'', sf) \<in> set (outlet_calls (config b))"
    by (auto simp: outlet_calls_def)
  with entry run show "port_vars (state_of (add_ports b)) ''liq_out'' k = r"
    and "port_vars (state_of (add_ports b)) ''vap_out'' k = r"
    by auto
  show "port_vars (state_of (add_ports b)) ''liq_side_draw'' k = r"
    if "has_liquid_side_draw (config b)"
    using that entry [of "''liq_side_draw''" "''Liq''" "VarRef ''liq_side_sf''"] run
    by (simp add: outlet_calls_def)
  show "port_vars (state_of (add_ports b)) ''vap_side_draw'' k = r"
    if "has_vapor_side_draw (config b)"
    using that entry [of "''vap_side_draw''" "''Vap''" "VarRef ''vap_side_sf''"] run
    by (simp add: outlet_calls_def)
qed

lemma reference_kinds:
  assumes "(\<not> py_in ''flow'' k \<and> \<not> py_in ''frac'' k \<and> \<not> py_in ''enth'' k)
         \<or> (py_in ''frac'' k \<and> (py_in ''mole'' k \<or> py_in ''mass'' k) \<and> py_in ''phase'' k)
         \<or> (py_in ''enth'' k \<and> py_in ''phase'' k \<and> \<not> py_in ''flow'' k)"
  shows "intensive_member k \<or> (fraction_member k \<and> py_in ''phase'' k)
         \<or> (enthalpy_member k \<and> py_in ''phase'' k)"
  using assms
  by (auto simp: intensive_member_def fraction_member_def enthalpy_member_def)

text \<open>
  C5, as amended. Take a member whose name contains none of "flow", "frac", "enth", or
  a phase-indexed fraction (the name contains "frac", "mole" or "mass", and "phase"), or
  a phase-indexed enthalpy (the name contains "enth" and "phase") whose name does not
  contain "flow". It is exported as a direct reference to the outlet variable: the loop
  body adds the same reference whatever the port, the phase and the split fraction are,
  and when \<^verbatim>\<open>_add_ports\<close> returns, every outlet port holds that one reference for the
  member.
\<close>

theorem shared_reference_on_every_port:
  assumes "(\<not> py_in ''flow'' k \<and> \<not> py_in ''frac'' k \<and> \<not> py_in ''enth'' k)
         \<or> (py_in ''frac'' k \<and> (py_in ''mole'' k \<or> py_in ''mass'' k) \<and> py_in ''phase'' k)
         \<or> (py_in ''enth'' k \<and> py_in ''phase'' k \<and> \<not> py_in ''flow'' k)"
  shows "phase_split_member port phase sf (k, m) (b, cur)
           = Ok (port_add port (shared_reference k m) k b, cur)
       \<and> (is_ok (add_ports b) \<longrightarrow>
          distinct (map fst (define_port_members (property_package (config b)))) \<longrightarrow>
          (k, m) \<in> set (define_port_members (property_package (config b))) \<longrightarrow>
            port_vars (state_of (add_ports b)) ''liq_out'' k = Some (shared_reference k m)
          \<and> port_vars (state_of (add_ports b)) ''vap_out'' k = Some (shared_reference k m)
          \<and> (has_liquid_side_draw (config b) \<longrightarrow>
               port_vars (state_of (add_ports b)) ''liq_side_draw'' k
                 = Some (shared_reference k m))
          \<and> (has_vapor_side_draw (config b) \<longrightarrow>
               port_vars (state_of (add_ports b)) ''vap_side_draw'' k
                 = Some (shared_reference k m)))"
proof -
  note kinds = reference_kinds [OF assms]
  from step_reference [OF kinds] add_ports_uniform [OF _ _ _ exports_reference [OF kinds]]
  show ?thesis by blast
qed

lemma example_reference_ports_built:
  "is_ok (add_ports (example_tray
     (example_config False True False [example_member ''enth_mol_phase'' True])))"
  by (simp add: port_eval)

theorem shared_reference_on_every_port_witness:
  "py_in ''enth'' ''enth_mol_phase'' \<and> py_in ''phase'' ''enth_mol_phase''
   \<and> \<not> py_in ''flow'' ''enth_mol_phase''
   \<and> is_ok (add_ports (example_tray
        (example_config False True False [example_member ''enth_mol_phase'' True])))
   \<and> port_vars (state_of (add_ports (example_tray
        (example_config False True False [example_member ''enth_mol_phase'' True]))))
        ''liq_out'' ''enth_mol_phase'' = Some (Reference ''enth_mol_phase'' True)
   \<and> port_vars (state_of (add_ports (example_tray
        (example_config False True False [example_member ''enth_mol_phase'' True]))))
        ''liq_side_draw'' ''enth_mol_phase'' = Some (Reference ''enth_mol_phase'' True)
   \<and> port_vars (state_of (add_ports (example_tray
        (example_config False True False [example_member ''enth_mol_phase'' True]))))
        ''vap_out'' ''enth_mol_phase'' = Some (Reference ''enth_mol_phase'' True)"
proof -
  let ?b = "example_tray (example_config False True False [example_member ''enth_mol_phase'' True])"
  have cls: "py_in ''enth'' ''enth_mol_phase''" "py_in ''phase'' ''enth_mol_phase''"
    "\<not> py_in ''flow'' ''enth_mol_phase''"
    by simp_all
  have pre: "distinct (map fst (define_port_members (property_package (config ?b))))"
    "example_member ''enth_mol_phase'' True
       \<in> set (define_port_members (property_package (config ?b)))"
    "has_liquid_side_draw (config ?b)"
    by (simp_all add: example_tray_simps example_config_def example_package_def)
  have ref: "shared_reference ''enth_mol_phase'' (snd (example_member ''enth_mol_phase'' True))
               = Reference ''enth_mol_phase'' True"
    by (simp add: shared_reference_def example_member_def)
  from shared_reference_on_every_port
         [of "''enth_mol_phase''" "''liq_out''" "''Liq''" "Lit 1"
             "snd (example_member ''enth_mol_phase'' True)" ?b None]
       cls pre example_reference_ports_built ref
  show ?thesis by (simp add: example_member_def)
qed

text \<open>
  C5 as stated fails: \<^verbatim>\<open>enth_flow_phase\<close> is a phase-indexed enthalpy by its name, but
  the flow rule comes before the enthalpy rule and passes over a name with "phase": no
  outlet port holds anything for the member.
\<close>

theorem shared_reference_counterexample:
  "py_in ''enth'' ''enth_flow_phase'' \<and> py_in ''phase'' ''enth_flow_phase''
   \<and> is_ok (add_ports (example_tray
        (example_config False False False [example_member ''enth_flow_phase'' True])))
   \<and> port_vars (state_of (add_ports (example_tray
        (example_config False False False [example_member ''enth_flow_phase'' True]))))
        ''liq_out'' ''enth_flow_phase'' = None
   \<and> port_vars (state_of (add_ports (example_tray
        (example_config False False False [example_member ''enth_flow_phase'' True]))))
        ''vap_out'' ''enth_flow_phase'' = None"
  by (simp add: port_eval)

subsection \<open>The resolver: phase-indexed flows\<close>

text \<open>
  C9, as amended. A port member whose name contains both "flow" and "phase", and not
  "frac" together with "mole" or "mass", is passed over: the loop body returns with the
  tray untouched, the resolver behaves as if the member were not in the list, and when
  \<^verbatim>\<open>_add_ports\<close> returns no outlet port holds anything under its name.
\<close>

theorem phase_indexed_flow_omitted:
  assumes "py_in ''flow'' k" "py_in ''phase'' k" "\<not> fraction_member k"
  shows "phase_split_member port phase sf (k, m) s = Ok s
       \<and> for_each (phase_split_member port phase sf) (pre @ (k, m) # post) s
           = for_each (phase_split_member port phase sf) (pre @ post) s
       \<and> (is_ok (add_ports b) \<longrightarrow>
          distinct (map fst (define_port_members (property_package (config b)))) \<longrightarrow>
          (k, m) \<in> set (define_port_members (property_package (config b))) \<longrightarrow>
            port_vars (state_of (add_ports b)) ''liq_out'' k = None
          \<and> port_vars (state_of (add_ports b)) ''vap_out'' k = None
          \<and> (has_liquid_side_draw (config b) \<longrightarrow>
               port_vars (state_of (add_ports b)) ''liq_side_draw'' k = None)
          \<and> (has_vapor_side_draw (config b) \<longrightarrow>
               port_vars (state_of (add_ports b)) ''vap_side_draw'' k = None))"
proof -
  note step = step_omitted [OF assms]
  have "for_each (phase_split_member port phase sf) (pre @ (k, m) # post) s
          = for_each (phase_split_member port phase sf) (pre @ post) s"
    by (cases "for_each (phase_split_member port phase sf) pre s")
       (simp_all add: for_each_append and_then_def step)
  with step add_ports_uniform [OF _ _ _ exports_omitted [OF assms]] show ?thesis
    by blast
qed

lemma example_omitted_ports_built:
  "is_ok (add_ports (example_tray
     (example_config False True False [example_member ''flow_mol_phase'' True])))"
  by (simp add: port_eval)

theorem phase_indexed_flow_omitted_witness:
  "py_in ''flow'' ''flow_mol_phase'' \<and> py_in ''phase'' ''flow_mol_phase''
   \<and> is_ok (add_ports (example_tray
        (example_config False True False [example_member ''flow_mol_phase'' True])))
   \<and> port_vars (state_of (add_ports (example_tray
        (example_config False True False [example_member ''flow_mol_phase'' True]))))
        ''liq_out'' ''flow_mol_phase'' = None
   \<and> port_vars (state_of (add_ports (example_tray
        (example_config False True False [example_member ''flow_mol_phase'' True]))))
        ''liq_side_draw'' ''flow_mol_phase'' = None
   \<and> port_vars (state_of (add_ports (example_tray
        (example_config False True False [example_member ''flow_mol_phase'' True]))))
        ''vap_out'' ''flow_mol_phase'' = None"
proof -
  let ?b = "example_tray (example_config False True False [example_member ''flow_mol_phase'' True])"
  have cls: "py_in ''flow'' ''flow_mol_phase''" "py_in ''phase'' ''flow_mol_phase''"
    "\<not> fraction_member ''flow_mol_phase''"
    by (simp_all add: fraction_member_def)
  have pre: "distinct (map fst (define_port_members (property_package (config ?b))))"
    "example_member ''flow_mol_phase'' True
       \<in> set (define_port_members (property_package (config ?b)))"
    "has_liquid_side_draw (config ?b)"
    by (simp_all add: example_tray_simps example_config_def example_package_def)
  from phase_indexed_flow_omitted
         [where k = "''flow_mol_phase''" and port = "''liq_out''" and phase = "''Liq''"
            and sf = "Lit 1" and m = "snd (example_member ''flow_mol_phase'' True)"
            and s = "(?b, None)" and pre = "[]" and post = "[]" and b = ?b]
       cls pre example_omitted_ports_built
  show ?thesis by (simp add: example_member_def)
qed

text \<open>
  C9 as stated fails: the name \<^verbatim>\<open>flow_mass_frac_phase\<close> contains "flow" and "phase",
  but the fraction rule comes first in the chain and exports a reference for it.
\<close>

theorem phase_indexed_flow_counterexample:
  "py_in ''flow'' ''flow_mass_frac_phase'' \<and> py_in ''phase'' ''flow_mass_frac_phase''
   \<and> is_ok (make_phase_split ''liq_out'' ''Liq'' (Lit 1)
        (example_tray (example_config False False False
           [example_member ''flow_mass_frac_phase'' True])))
   \<and> port_vars (state_of (make_phase_split ''liq_out'' ''Liq'' (Lit 1)
        (example_tray (example_config False False False
           [example_member ''flow_mass_frac_phase'' True]))))
        ''liq_out'' ''flow_mass_frac_phase'' = Some (Reference ''flow_mass_frac_phase'' True)"
  by (simp add: port_eval)

subsection \<open>The resolver: total fractions\<close>

text \<open>
  C10. For a total fraction member (fraction kind, no "phase" in its name) the loop body
  raises IndexError, with the tray untouched, exactly when the name has fewer than three
  underscore-separated segments, as \<^verbatim>\<open>mole_frac\<close> has; the resolver then ends with that
  IndexError once it reaches the member, and neither \<^verbatim>\<open>_make_phase_split\<close> nor
  \<^verbatim>\<open>_add_ports\<close> returns normally for a package that declares it.
\<close>

theorem total_fraction_needs_three_segments:
  assumes "fraction_member k" "\<not> py_in ''phase'' k"
  shows "((phase_split_member port phase sf (k, m) (b, cur) = Raise IndexError (b, cur))
            = (length (py_split CHR ''_'' k) < 3))
       \<and> (length (py_split CHR ''_'' k) < 3 \<longrightarrow>
            (for_each (phase_split_member port phase sf) pre s = Ok s1 \<longrightarrow>
               for_each (phase_split_member port phase sf) (pre @ (k, m) # post) s
                 = Raise IndexError s1)
          \<and> ((k, m) \<in> set (define_port_members (property_package (config b))) \<longrightarrow>
               \<not> is_ok (make_phase_split port phase sf b) \<and> \<not> is_ok (add_ports b)))"
proof (intro conjI impI)
  show "(phase_split_member port phase sf (k, m) (b, cur) = Raise IndexError (b, cur))
            = (length (py_split CHR ''_'' k) < 3)"
    by (rule step_fraction_total(1) [OF assms])
next
  assume short: "length (py_split CHR ''_'' k) < 3"
  have raises: "phase_split_member q ph f (k, m) (b0, c0) = Raise IndexError (b0, c0)"
    for q ph f b0 c0
    by (rule step_fraction_total(2) [OF assms short])
  {
    assume "for_each (phase_split_member port phase sf) pre s = Ok s1"
    then show "for_each (phase_split_member port phase sf) (pre @ (k, m) # post) s
                 = Raise IndexError s1"
      by (cases s1) (simp add: for_each_append and_then_def raises)
  }
  assume mem: "(k, m) \<in> set (define_port_members (property_package (config b)))"
  show "\<not> is_ok (make_phase_split port phase sf b)"
  proof
    assume "is_ok (make_phase_split port phase sf b)"
    then obtain b' where "make_phase_split port phase sf b = Ok b'"
      by (cases "make_phase_split port phase sf b") simp_all
    from make_phase_split_passes [OF this mem] raises show False by auto
  qed
  show "\<not> is_ok (add_ports b)"
  proof
    assume "is_ok (add_ports b)"
    from add_ports_runs_liq_out [OF this] obtain f b1 b2
      where "config b1 = config b"
        and "make_phase_split ''liq_out'' ''Liq'' f b1 = Ok b2" by blast
    with make_phase_split_passes [of "''liq_out''" "''Liq''" f b1 b2 "(k, m)"] mem raises
    show False by auto
  qed
qed

theorem total_fraction_needs_three_segments_witness:
  "fraction_member ''mole_frac'' \<and> \<not> py_in ''phase'' ''mole_frac''
   \<and> length (py_split CHR ''_'' ''mole_frac'') = 2
   \<and> phase_split_member ''liq_out'' ''Liq'' (Lit 1) (example_member ''mole_frac'' True)
        (example_tray (example_config False False False [example_member ''mole_frac'' True]), None)
      = Raise IndexError
          (example_tray (example_config False False False [example_member ''mole_frac'' True]), None)
   \<and> \<not> is_ok (add_ports
        (example_tray (example_config False False False [example_member ''mole_frac'' True])))"
proof -
  let ?b = "example_tray (example_config False False False [example_member ''mole_frac'' True])"
  have cls: "fraction_member ''mole_frac''" "\<not> py_in ''phase'' ''mole_frac''"
    "length (py_split CHR ''_'' ''mole_frac'') = 2"
    by (simp_all add: fraction_member_def)
  have pre: "example_member ''mole_frac'' True
       \<in> set (define_port_members (property_package (config ?b)))"
    by (simp add: example_tray_simps example_config_def example_package_def)
  from total_fraction_needs_three_segments
         [where k = "''mole_frac''" and port = "''liq_out''" and phase = "''Liq''"
            and sf = "Lit 1" and m = "snd (example_member ''mole_frac'' True)" and b = ?b
            and cur = None and pre = "[]" and s = "(?b, None)" and ?s1.0 = "(?b, None)"
            and post = "[]"]
       cls pre
  show ?thesis by (simp add: example_member_def)
qed

subsection \<open>The resolver: total enthalpy\<close>

lemma exports_enth:
  assumes "enthalpy_member k" "\<not> py_in ''phase'' k"
  shows "exports port phase sf (k, m) b
           (Some (PortExpression (enth_data (flowsheet_time b) phase m)))"
  by (auto simp: exports_def step_enth [OF assms] port_add_simps set_attr_simps entry_after_def
           split: if_splits)

lemma enth_data_values:
  "list_all (\<lambda>(ix, e). eval v e =
       component_value v ''properties_out'' (index_time ix) (local_name m @ ''_phase'') [phase])
     (enth_data ts phase m)"
  by (simp add: enth_data_def list_all_iff)

text \<open>
  C6, as amended. Take a member that reaches the enthalpy rule (its name contains "enth",
  no "flow", and not "frac" together with "mole" or "mass") and has no "phase" in its
  name. If it is indexed, the loop body raises PropertyPackageError with the tray
  untouched, and no resolver run and no \<^verbatim>\<open>_add_ports\<close> returns normally for a package
  that declares it. If it is unindexed and the name \<^verbatim>\<open>e_enth_<port>\<close> is still free, the
  body exports an expression that at every time point is the sibling
  \<^verbatim>\<open><local_name>_phase\<close> at the requested phase, with no split-fraction factor; a
  resolver run that returns normally leaves that expression on the port.
\<close>

theorem total_enthalpy_resolution:
  assumes "enthalpy_member k" "\<not> py_in ''phase'' k"
  shows "(is_indexed m \<longrightarrow>
            phase_split_member port phase sf (k, m) (b, cur)
              = Raise (PropertyPackageError ''Expected an unindexed variable.'') (b, cur)
          \<and> ((k, m) \<in> set (define_port_members (property_package (config b))) \<longrightarrow>
               \<not> is_ok (make_phase_split port phase sf b) \<and> \<not> is_ok (add_ports b)))
       \<and> (\<not> is_indexed m \<longrightarrow> comps b (''e_enth_'' @ port) = None \<longrightarrow>
            phase_split_member port phase sf (k, m) (b, cur)
              = Ok (port_add port (PortExpression (enth_data (flowsheet_time b) phase m)) k
                      (set_attr (''e_enth_'' @ port)
                         (ExpressionComponent (enth_data (flowsheet_time b) phase m)) b),
                    Some (local_name m @ ''_phase'')))
       \<and> (is_ok (make_phase_split port phase sf b) \<longrightarrow>
          distinct (map fst (define_port_members (property_package (config b)))) \<longrightarrow>
          (k, m) \<in> set (define_port_members (property_package (config b))) \<longrightarrow>
            port_vars (state_of (make_phase_split port phase sf b)) port k
              = Some (PortExpression (enth_data (flowsheet_time b) phase m)))
       \<and> list_all (\<lambda>(ix, e). eval v e =
            component_value v ''properties_out'' (index_time ix) (local_name m @ ''_phase'')
              [phase])
          (enth_data (flowsheet_time b) phase m)"
proof (intro conjI impI)
  show "list_all (\<lambda>(ix, e). eval v e =
            component_value v ''properties_out'' (index_time ix) (local_name m @ ''_phase'')
              [phase])
          (enth_data (flowsheet_time b) phase m)"
    by (rule enth_data_values)
next
  assume "\<not> is_indexed m" "comps b (''e_enth_'' @ port) = None"
  then show "phase_split_member port phase sf (k, m) (b, cur)
              = Ok (port_add port (PortExpression (enth_data (flowsheet_time b) phase m)) k
                      (set_attr (''e_enth_'' @ port)
                         (ExpressionComponent (enth_data (flowsheet_time b) phase m)) b),
                    Some (local_name m @ ''_phase''))"
    by (simp add: step_enth [OF assms])
next
  assume ok: "is_ok (make_phase_split port phase sf b)"
    and dist: "distinct (map fst (define_port_members (property_package (config b))))"
    and mem: "(k, m) \<in> set (define_port_members (property_package (config b)))"
  from ok obtain b' where run: "make_phase_split port phase sf b = Ok b'"
    by (cases "make_phase_split port phase sf b") simp_all
  from make_phase_split_entry [OF run dist mem exports_enth [OF assms]] run
  show "port_vars (state_of (make_phase_split port phase sf b)) port k
          = Some (PortExpression (enth_data (flowsheet_time b) phase m))"
    by (simp add: entry_after_def)
next
  assume ix: "is_indexed m"
  then have raises: "phase_split_member q ph f (k, m) (b0, c0)
              = Raise (PropertyPackageError ''Expected an unindexed variable.'') (b0, c0)"
    for q ph f b0 c0
    by (simp add: step_enth [OF assms])
  show "phase_split_member port phase sf (k, m) (b, cur)
          = Raise (PropertyPackageError ''Expected an unindexed variable.'') (b, cur)"
    by (rule raises)
  assume mem: "(k, m) \<in> set (define_port_members (property_package (config b)))"
  show "\<not> is_ok (make_phase_split port phase sf b)"
  proof
    assume "is_ok (make_phase_split port phase sf b)"
    then obtain b' where "make_phase_split port phase sf b = Ok b'"
      by (cases "make_phase_split port phase sf b") simp_all
    from make_phase_split_passes [OF this mem] raises show False by auto
  qed
  show "\<not> is_ok (add_ports b)"
  proof
    assume "is_ok (add_ports b)"
    from add_ports_runs_liq_out [OF this] obtain f b1 b2
      where "config b1 = config b"
        and "make_phase_split ''liq_out'' ''Liq'' f b1 = Ok b2" by blast
    with make_phase_split_passes [of "''liq_out''" "''Liq''" f b1 b2 "(k, m)"] mem raises
    show False by auto
  qed
qed

lemma example_enthalpy_port_built:
  "is_ok (make_phase_split ''liq_side_draw'' ''Liq'' (VarRef ''liq_side_sf'')
     (example_tray (example_config False True False [example_member ''enth_mol'' False])))"
  by (simp add: port_eval)

theorem total_enthalpy_resolution_witness:
  "enthalpy_member ''enth_mol'' \<and> \<not> py_in ''phase'' ''enth_mol''
   \<and> phase_split_member ''liq_side_draw'' ''Liq'' (VarRef ''liq_side_sf'')
        (example_member ''enth_mol'' True)
        (example_tray (example_config False True False [example_member ''enth_mol'' True]), None)
      = Raise (PropertyPackageError ''Expected an unindexed variable.'')
          (example_tray (example_config False True False [example_member ''enth_mol'' True]), None)
   \<and> is_ok (make_phase_split ''liq_side_draw'' ''Liq'' (VarRef ''liq_side_sf'')
        (example_tray (example_config False True False [example_member ''enth_mol'' False])))
   \<and> port_vars (state_of (make_phase_split ''liq_side_draw'' ''Liq'' (VarRef ''liq_side_sf'')
        (example_tray (example_config False True False [example_member ''enth_mol'' False]))))
        ''liq_side_draw'' ''enth_mol''
      = Some (PortExpression
          [(Idx1 0, Component ''properties_out'' 0 ''enth_mol_phase'' [''Liq''])])"
proof -
  let ?bi = "example_tray (example_config False True False [example_member ''enth_mol'' True])"
  let ?bu = "example_tray (example_config False True False [example_member ''enth_mol'' False])"
  have cls: "enthalpy_member ''enth_mol''" "\<not> py_in ''phase'' ''enth_mol''"
    by (simp_all add: enthalpy_member_def fraction_member_def)
  have pre: "distinct (map fst (define_port_members (property_package (config ?bu))))"
    "example_member ''enth_mol'' False
       \<in> set (define_port_members (property_package (config ?bu)))"
    by (simp_all add: example_tray_simps example_config_def example_package_def)
  have data: "enth_data (flowsheet_time ?bu) ''Liq'' (snd (example_member ''enth_mol'' False))
                = [(Idx1 0, Component ''properties_out'' 0 ''enth_mol_phase'' [''Liq''])]"
    by (simp add: enth_data_def indices1_def example_tray_simps example_member_def)
  from total_enthalpy_resolution
         [where k = "''enth_mol''" and port = "''liq_side_draw''" and phase = "''Liq''"
            and sf = "VarRef ''liq_side_sf''" and m = "snd (example_member ''enth_mol'' True)"
            and b = ?bi and cur = None] cls
  have indexed: "phase_split_member ''liq_side_draw'' ''Liq'' (VarRef ''liq_side_sf'')
        (example_member ''enth_mol'' True) (?bi, None)
      = Raise (PropertyPackageError ''Expected an unindexed variable.'') (?bi, None)"
    by (simp add: example_member_def)
  from total_enthalpy_resolution
         [where k = "''enth_mol''" and port = "''liq_side_draw''" and phase = "''Liq''"
            and sf = "VarRef ''liq_side_sf''" and m = "snd (example_member ''enth_mol'' False)"
            and b = ?bu] cls pre example_enthalpy_port_built data
  have "port_vars (state_of (make_phase_split ''liq_side_draw'' ''Liq'' (VarRef ''liq_side_sf'') ?bu))
          ''liq_side_draw'' ''enth_mol''
      = Some (PortExpression
          [(Idx1 0, Component ''properties_out'' 0 ''enth_mol_phase'' [''Liq''])])"
    by (simp add: example_member_def)
  with cls indexed example_enthalpy_port_built show ?thesis by simp
qed

text \<open>
  C6 as stated fails: \<^verbatim>\<open>enth_flow\<close> contains "enth" and not "phase", but the flow rule
  comes first in the chain. Unindexed, it is exported scaled by the split fraction;
  indexed under the name \<^verbatim>\<open>enth_flow_comp\<close>, it raises nothing.
\<close>

theorem total_enthalpy_counterexample:
  "py_in ''enth'' ''enth_flow'' \<and> \<not> py_in ''phase'' ''enth_flow''
   \<and> is_ok (make_phase_split ''liq_side_draw'' ''Liq'' (VarRef ''liq_side_sf'')
        (example_tray (example_config False True False [example_member ''enth_flow'' False])))
   \<and> port_vars (state_of (make_phase_split ''liq_side_draw'' ''Liq'' (VarRef ''liq_side_sf'')
        (example_tray (example_config False True False [example_member ''enth_flow'' False]))))
        ''liq_side_draw'' ''enth_flow''
      = Some (PortExpression
          [(Idx1 0, Mul (Component ''properties_out'' 0 ''enth_flow_phase'' [''Liq''])
                        (VarRef ''liq_side_sf''))])
   \<and> py_in ''enth'' ''enth_flow_comp'' \<and> \<not> py_in ''phase'' ''enth_flow_comp''
   \<and> is_ok (make_phase_split ''liq_side_draw'' ''Liq'' (VarRef ''liq_side_sf'')
        (example_tray (example_config False True False
           [example_member ''enth_flow_comp'' True])))"
  by (simp add: port_eval)

subsection \<open>The resolver: flows\<close>

lemma carries_flow_data:
  assumes "port_vars b port k = Some (PortExpression (flow_data (flowsheet_time b) phase sf m))"
  shows "carries_flow b port k m phase v (eval v sf)"
  using assms
  by (simp add: carries_flow_def flow_data_def member_indices_def list_all_iff comp_def)

lemma add_ports_flow_entry:
  assumes ok: "is_ok (add_ports b)"
    and dist: "distinct (map fst (define_port_members (property_package (config b))))"
    and mem: "(k, m) \<in> set (define_port_members (property_package (config b)))"
    and flow: "flow_member k" "\<not> py_in ''phase'' k" "flow_sibling_named m"
    and call: "(port, phase, sf) \<in> set (outlet_calls (config b))"
  shows "carries_flow (state_of (add_ports b)) port k m phase v (eval v sf)"
proof -
  from ok obtain b' where run: "add_ports b = Ok b'" by (cases "add_ports b") simp_all
  from add_ports_entry [OF run dist mem call exports_flow [OF flow]]
       add_ports_frame(2) [OF ok] run
  have "port_vars b' port k = Some (PortExpression (flow_data (flowsheet_time b') phase sf m))"
    by simp
  from carries_flow_data [OF this] run show ?thesis by simp
qed

text \<open>
  C3, as amended. Let \<^verbatim>\<open>_add_ports\<close> return normally, and take a member that reaches the
  flow rule (its name contains "flow", and not "frac" together with "mole" or "mass"),
  has no "phase" in its name, and is unindexed or has a local name \<^verbatim>\<open>X_Y_comp\<close>. Then
  at every time point (and component, when indexed) the side-draw port holds the
  phase-indexed flow sibling at the port's phase times the side split fraction \<open>f\<close>, the
  matching main outlet holds \<open>1 - f\<close> times it, and a main outlet without side draw holds
  it times \<open>1\<close>.
\<close>

theorem flow_split_on_ports:
  assumes "is_ok (add_ports b)"
    and "distinct (map fst (define_port_members (property_package (config b))))"
    and "(k, m) \<in> set (define_port_members (property_package (config b)))"
    and "flow_member k" "\<not> py_in ''phase'' k" "flow_sibling_named m"
  shows "(if has_liquid_side_draw (config b)
          then carries_flow (state_of (add_ports b)) ''liq_side_draw'' k m ''Liq'' v
                 (var_value v ''liq_side_sf'')
             \<and> carries_flow (state_of (add_ports b)) ''liq_out'' k m ''Liq'' v
                 (1 - var_value v ''liq_side_sf'')
          else carries_flow (state_of (add_ports b)) ''liq_out'' k m ''Liq'' v 1)
       \<and> (if has_vapor_side_draw (config b)
          then carries_flow (state_of (add_ports b)) ''vap_side_draw'' k m ''Vap'' v
                 (var_value v ''vap_side_sf'')
             \<and> carries_flow (state_of (add_ports b)) ''vap_out'' k m ''Vap'' v
                 (1 - var_value v ''vap_side_sf'')
          else carries_flow (state_of (add_ports b)) ''vap_out'' k m ''Vap'' v 1)"
proof -
  note entry = add_ports_flow_entry [OF assms, of _ _ _ v]
  have liq: "carries_flow (state_of (add_ports b)) ''liq_side_draw'' k m ''Liq'' v
                 (var_value v ''liq_side_sf'')
             \<and> carries_flow (state_of (add_ports b)) ''liq_out'' k m ''Liq'' v
                 (1 - var_value v ''liq_side_sf'')"
    if "has_liquid_side_draw (config b)"
    using that entry [of "''liq_side_draw''" "''Liq''" "VarRef ''liq_side_sf''"]
      entry [of "''liq_out''" "''Liq''" "Sub (Lit 1) (VarRef ''liq_side_sf'')"]
    by (simp add: outlet_calls_def)
  have liq1: "carries_flow (state_of (add_ports b)) ''liq_out'' k m ''Liq'' v 1"
    if "\<not> has_liquid_side_draw (config b)"
    using that entry [of "''liq_out''" "''Liq''" "Lit 1"]
    by (simp add: outlet_calls_def)
  have vap: "carries_flow (state_of (add_ports b)) ''vap_side_draw'' k m ''Vap'' v
                 (var_value v ''vap_side_sf'')
             \<and> carries_flow (state_of (add_ports b)) ''vap_out'' k m ''Vap'' v
                 (1 - var_value v ''vap_side_sf'')"
    if "has_vapor_side_draw (config b)"
    using that entry [of "''vap_side_draw''" "''Vap''" "VarRef ''vap_side_sf''"]
      entry [of "''vap_out''" "''Vap''" "Sub (Lit 1) (VarRef ''vap_side_sf'')"]
    by (simp add: outlet_calls_def)
  have vap1: "carries_flow (state_of (add_ports b)) ''vap_out'' k m ''Vap'' v 1"
    if "\<not> has_vapor_side_draw (config b)"
    using that entry [of "''vap_out''" "''Vap''" "Lit 1"]
    by (simp add: outlet_calls_def)
  from liq liq1 vap vap1 show ?thesis by simp
qed

lemma example_flow_ports_built:
  "is_ok (add_ports (example_tray
     (example_config False True False [example_member ''flow_mol_comp'' True])))"
  by (simp add: port_eval)

theorem flow_split_on_ports_witness:
  "flow_member ''flow_mol_comp'' \<and> \<not> py_in ''phase'' ''flow_mol_comp''
   \<and> flow_sibling (snd (example_member ''flow_mol_comp'' True)) = ''flow_mol_phase_comp''
   \<and> is_ok (add_ports (example_tray
        (example_config False True False [example_member ''flow_mol_comp'' True])))
   \<and> carries_flow (state_of (add_ports (example_tray
        (example_config False True False [example_member ''flow_mol_comp'' True]))))
        ''liq_side_draw'' ''flow_mol_comp'' (snd (example_member ''flow_mol_comp'' True))
        ''Liq'' example_valuation (1 / 4)
   \<and> carries_flow (state_of (add_ports (example_tray
        (example_config False True False [example_member ''flow_mol_comp'' True]))))
        ''liq_out'' ''flow_mol_comp'' (snd (example_member ''flow_mol_comp'' True))
        ''Liq'' example_valuation (3 / 4)
   \<and> carries_flow (state_of (add_ports (example_tray
        (example_config False True False [example_member ''flow_mol_comp'' True]))))
        ''vap_out'' ''flow_mol_comp'' (snd (example_member ''flow_mol_comp'' True))
        ''Vap'' example_valuation 1"
proof -
  let ?b = "example_tray (example_config False True False [example_member ''flow_mol_comp'' True])"
  let ?m = "snd (example_member ''flow_mol_comp'' True)"
  have cls: "flow_member ''flow_mol_comp''" "\<not> py_in ''phase'' ''flow_mol_comp''"
    by (simp_all add: flow_member_def fraction_member_def)
  have sib: "flow_sibling_named ?m" "flow_sibling ?m = ''flow_mol_phase_comp''"
    by (simp_all add: flow_sibling_named_def flow_sibling_def example_member_def)
  have pre: "distinct (map fst (define_port_members (property_package (config ?b))))"
    "(''flow_mol_comp'', ?m) \<in> set (define_port_members (property_package (config ?b)))"
    "has_liquid_side_draw (config ?b)" "\<not> has_vapor_side_draw (config ?b)"
    by (simp_all add: example_tray_simps example_config_def example_package_def
                      example_member_def)
  from flow_split_on_ports [OF example_flow_ports_built pre(1,2) cls sib(1),
         of example_valuation] pre(3,4)
  have "carries_flow (state_of (add_ports ?b)) ''liq_side_draw'' ''flow_mol_comp'' ?m
          ''Liq'' example_valuation (1 / 4)"
    and "carries_flow (state_of (add_ports ?b)) ''liq_out'' ''flow_mol_comp'' ?m
          ''Liq'' example_valuation (3 / 4)"
    and "carries_flow (state_of (add_ports ?b)) ''vap_out'' ''flow_mol_comp'' ?m
          ''Vap'' example_valuation 1"
    by (simp_all add: example_valuation_def)
  with cls sib(2) example_flow_ports_built show ?thesis by simp
qed

text \<open>
  C3 as stated fails: \<^verbatim>\<open>flow_mass_frac\<close> contains "flow" and not "phase", but the
  fraction rule comes first in the chain, and the side-draw port holds the sibling
  \<^verbatim>\<open>flow_mass_phase_frac\<close> with no split-fraction factor.
\<close>

theorem flow_split_counterexample:
  "py_in ''flow'' ''flow_mass_frac'' \<and> \<not> py_in ''phase'' ''flow_mass_frac''
   \<and> is_ok (add_ports (example_tray
        (example_config False True False [example_member ''flow_mass_frac'' True])))
   \<and> port_vars (state_of (add_ports (example_tray
        (example_config False True False [example_member ''flow_mass_frac'' True]))))
        ''liq_side_draw'' ''flow_mass_frac''
      = Some (PortExpression
          [(Idx2 0 ''benzene'',
              Component ''properties_out'' 0 ''flow_mass_phase_frac'' [''Liq'', ''benzene'']),
           (Idx2 0 ''toluene'',
              Component ''properties_out'' 0 ''flow_mass_phase_frac'' [''Liq'', ''toluene''])])
   \<and> eval example_valuation
        (Component ''properties_out'' 0 ''flow_mass_phase_frac'' [''Liq'', ''benzene''])
      \<noteq> component_value example_valuation ''properties_out'' 0 ''flow_mass_phase_frac''
            [''Liq'', ''benzene''] * var_value example_valuation ''liq_side_sf''"
  by (simp add: port_eval example_valuation_def)

end
